theory Spec2Isabelle
  imports Main "HOL-Library.AList"
begin

section \<open>Data model (src/models/StreamActivity.js)\<close>

text \<open>
  Timestamps are JavaScript \<^verbatim>\<open>Date\<close> values, modelled by their time value: an integer
  number of milliseconds since the epoch. A \<^verbatim>\<open>Date\<close> object is always truthy, so the
  only falsy \<^verbatim>\<open>endTime\<close> is \<^verbatim>\<open>null\<close>, modelled by \<open>None\<close>. Counters and
  minute totals are JavaScript numbers that only ever hold integers here; they are
  modelled by \<open>int\<close>.
\<close>

record stream =
  startTime :: int
  endTime :: "int option"
  channelId :: string
  channelName :: string
  duration :: int
  day :: string
  week :: string
  month :: string
  interrupted :: bool
  notificationMessageId :: "string option"
  notificationChannelId :: "string option"

text \<open>
  The three rolling totals \<^verbatim>\<open>currentDailyTotal\<close>, \<^verbatim>\<open>currentWeeklyTotal\<close> and
  \<^verbatim>\<open>currentMonthlyTotal\<close> have the same shape; their key field is called
  \<^verbatim>\<open>day\<close>, \<^verbatim>\<open>week\<close> and \<^verbatim>\<open>month\<close> in the schema and \<open>periodKey\<close> here.
\<close>

record period_total =
  periodKey :: string
  totalMinutes :: int
  streamCount :: int

record activity =
  username :: string
  guildName :: string
  streams :: "stream list"
  currentDailyTotal :: "period_total option"
  currentWeeklyTotal :: "period_total option"
  currentMonthlyTotal :: "period_total option"
  totalStreams :: int
  totalStreamTime :: int
  lastUpdated :: int

text \<open>
  \<^verbatim>\<open>getTimePeriods()\<close> formats the current clock reading as a day, an ISO week and a
  month tag. The formatting is not modelled: the three tags the call returns are an
  input of every operation that reads them, next to the clock reading \<open>now\<close> itself.
  The several \<^verbatim>\<open>new Date()\<close> readings inside one call are modelled by one value.
\<close>

record time_periods =
  p_day :: string
  p_week :: string
  p_month :: string

definition fresh_total :: "string \<Rightarrow> period_total" where
  "fresh_total tag = \<lparr>periodKey = tag, totalMinutes = 0, streamCount = 0\<rparr>"

definition total_missing :: "period_total option \<Rightarrow> bool" where
  \<comment> \<open>\<^verbatim>\<open>!this.currentDailyTotal || !this.currentDailyTotal.day\<close>: an empty string is falsy\<close>
  "total_missing t = (case t of None \<Rightarrow> True | Some w \<Rightarrow> periodKey w = [])"

definition init_total :: "string \<Rightarrow> period_total option \<Rightarrow> period_total" where
  \<comment> \<open>initialise the total if it does not exist (migration support)\<close>
  "init_total tag t = (case t of None \<Rightarrow> fresh_total tag
     | Some w \<Rightarrow> if periodKey w = [] then fresh_total tag else w)"

definition roll_total :: "string \<Rightarrow> period_total \<Rightarrow> period_total" where
  \<comment> \<open>reset when the period has changed since the last update\<close>
  "roll_total tag w = (if periodKey w \<noteq> tag then fresh_total tag else w)"

definition add_session :: "int \<Rightarrow> period_total \<Rightarrow> period_total" where
  "add_session d w = w\<lparr>totalMinutes := totalMinutes w + d, streamCount := streamCount w + 1\<rparr>"

definition new_stream :: "int \<Rightarrow> time_periods \<Rightarrow> string \<Rightarrow> string \<Rightarrow> stream" where
  "new_stream now cur cid cname =
     \<lparr>startTime = now, endTime = None, channelId = cid, channelName = cname, duration = 0,
      day = p_day cur, week = p_week cur, month = p_month cur, interrupted = False,
      notificationMessageId = None, notificationChannelId = None\<rparr>"

definition startStream :: "int \<Rightarrow> time_periods \<Rightarrow> string \<Rightarrow> string \<Rightarrow> activity \<Rightarrow> activity" where
  "startStream now cur cid cname a =
     a\<lparr>streams := streams a @ [new_stream now cur cid cname],
       currentDailyTotal :=
         (if total_missing (currentDailyTotal a) then Some (fresh_total (p_day cur))
          else currentDailyTotal a),
       currentWeeklyTotal :=
         (if total_missing (currentWeeklyTotal a) then Some (fresh_total (p_week cur))
          else currentWeeklyTotal a),
       currentMonthlyTotal :=
         (if total_missing (currentMonthlyTotal a) then Some (fresh_total (p_month cur))
          else currentMonthlyTotal a),
       lastUpdated := now\<rparr>"

definition minutes_between :: "int \<Rightarrow> int \<Rightarrow> int" where
  \<comment> \<open>\<^verbatim>\<open>Math.floor((endTime - startTime) / (1000 * 60))\<close>; \<open>div\<close> on \<open>int\<close> rounds down\<close>
  "minutes_between t0 t1 = (t1 - t0) div (1000 * 60)"

definition endStream :: "int \<Rightarrow> time_periods \<Rightarrow> activity \<Rightarrow> activity" where
  "endStream now cur a =
     (if streams a = [] then a
      else let latestStream = last (streams a) in
        if endTime latestStream \<noteq> None then a
        else let d = minutes_between (startTime latestStream) now in
          a\<lparr>streams := butlast (streams a) @ [latestStream\<lparr>endTime := Some now, duration := d\<rparr>],
            totalStreamTime := totalStreamTime a + d,
            totalStreams := totalStreams a + 1,
            currentDailyTotal :=
              Some (add_session d (roll_total (p_day cur) (init_total (p_day cur) (currentDailyTotal a)))),
            currentWeeklyTotal :=
              Some (add_session d (roll_total (p_week cur) (init_total (p_week cur) (currentWeeklyTotal a)))),
            currentMonthlyTotal :=
              Some (add_session d (roll_total (p_month cur) (init_total (p_month cur) (currentMonthlyTotal a)))),
            lastUpdated := now\<rparr>)"

section \<open>The session store and the tracker (src/utils/streamUtils.js)\<close>

text \<open>
  The collection holds one document per \<open>(userId, guildId)\<close>; it is an association
  list in insertion order, read with \<open>map_of\<close>. \<^verbatim>\<open>findOne\<close> returns a copy: two
  lookups of the same key give two independent documents in memory.

  \<^verbatim>\<open>doc.save()\<close> of a document that was loaded from the collection does not
  overwrite the stored document. Mongoose sends the paths modified on that instance
  since it was loaded: a \<^verbatim>\<open>$set\<close> for every changed field, also of an array element
  at its index, and a \<^verbatim>\<open>$push\<close> for the elements appended to an array. \<open>save\<close>
  below takes the document as loaded (\<open>base\<close>), the document as it is now (\<open>doc\<close>) and
  applies their difference to what the collection holds at that moment. This matters in
  \<open>startStreamSession\<close>, which saves a document loaded before \<open>endStreamSession\<close>
  changed the collection.
\<close>

type_synonym key = "string \<times> string"

type_synonym store = "(key \<times> activity) list"

definition findOne :: "key \<Rightarrow> store \<Rightarrow> activity option" where
  "findOne k st = map_of st k"

definition pick :: "'a \<Rightarrow> 'a \<Rightarrow> 'a \<Rightarrow> 'a" where
  \<comment> \<open>a path is written only if this instance changed it\<close>
  "pick base doc stored = (if doc \<noteq> base then doc else stored)"

definition merge_stream :: "stream \<Rightarrow> stream \<Rightarrow> stream \<Rightarrow> stream" where
  "merge_stream b c s =
     \<lparr>startTime = pick (startTime b) (startTime c) (startTime s),
      endTime = pick (endTime b) (endTime c) (endTime s),
      channelId = pick (channelId b) (channelId c) (channelId s),
      channelName = pick (channelName b) (channelName c) (channelName s),
      duration = pick (duration b) (duration c) (duration s),
      day = pick (day b) (day c) (day s),
      week = pick (week b) (week c) (week s),
      month = pick (month b) (month c) (month s),
      interrupted = pick (interrupted b) (interrupted c) (interrupted s),
      notificationMessageId =
        pick (notificationMessageId b) (notificationMessageId c) (notificationMessageId s),
      notificationChannelId =
        pick (notificationChannelId b) (notificationChannelId c) (notificationChannelId s)\<rparr>"

fun merge_streams :: "stream list \<Rightarrow> stream list \<Rightarrow> stream list \<Rightarrow> stream list" where
  "merge_streams (b # bs) (c # cs) (s # ss) = merge_stream b c s # merge_streams bs cs ss"
| "merge_streams [] cs ss = ss @ cs"
| "merge_streams bs cs ss = ss"

definition save_delta :: "activity \<Rightarrow> activity \<Rightarrow> activity \<Rightarrow> activity" where
  "save_delta base doc stored =
     \<lparr>username = pick (username base) (username doc) (username stored),
      guildName = pick (guildName base) (guildName doc) (guildName stored),
      streams = merge_streams (streams base) (streams doc) (streams stored),
      currentDailyTotal =
        pick (currentDailyTotal base) (currentDailyTotal doc) (currentDailyTotal stored),
      currentWeeklyTotal =
        pick (currentWeeklyTotal base) (currentWeeklyTotal doc) (currentWeeklyTotal stored),
      currentMonthlyTotal =
        pick (currentMonthlyTotal base) (currentMonthlyTotal doc) (currentMonthlyTotal stored),
      totalStreams = pick (totalStreams base) (totalStreams doc) (totalStreams stored),
      totalStreamTime = pick (totalStreamTime base) (totalStreamTime doc) (totalStreamTime stored),
      lastUpdated = pick (lastUpdated base) (lastUpdated doc) (lastUpdated stored)\<rparr>"

definition save :: "key \<Rightarrow> activity \<Rightarrow> activity \<Rightarrow> store \<Rightarrow> store" where
  "save k base doc st =
     (case map_of st k of None \<Rightarrow> st
      | Some stored \<Rightarrow> AList.update k (save_delta base doc stored) st)"

definition new_activity :: "int \<Rightarrow> time_periods \<Rightarrow> string \<Rightarrow> string \<Rightarrow> activity" where
  \<comment> \<open>\<^verbatim>\<open>new StreamActivity({userId, username, guildId, guildName, streams: []})\<close> with the schema defaults\<close>
  "new_activity now cur uname gname =
     \<lparr>username = uname, guildName = gname, streams = [],
      currentDailyTotal = Some (fresh_total (p_day cur)),
      currentWeeklyTotal = Some (fresh_total (p_week cur)),
      currentMonthlyTotal = Some (fresh_total (p_month cur)),
      totalStreams = 0, totalStreamTime = 0, lastUpdated = now\<rparr>"

definition getOrCreateStreamActivity ::
  "int \<Rightarrow> time_periods \<Rightarrow> key \<Rightarrow> string \<Rightarrow> string \<Rightarrow> store \<Rightarrow> activity \<times> store" where
  "getOrCreateStreamActivity now cur k uname gname st =
     (case findOne k st of
        Some a \<Rightarrow> (a, st)
      | None \<Rightarrow> (let a = new_activity now cur uname gname in (a, AList.update k a st)))"

record session_details =
  sd_startTime :: int
  sd_endTime :: "int option"
  sd_duration :: int
  sd_channelName :: string
  sd_interrupted :: bool

definition details_of :: "stream \<Rightarrow> session_details" where
  "details_of s =
     \<lparr>sd_startTime = startTime s, sd_endTime = endTime s, sd_duration = duration s,
      sd_channelName = channelName s, sd_interrupted = interrupted s\<rparr>"

text \<open>
  \<open>endStreamSession\<close> and \<open>markStreamAsInterrupted\<close> return
  \<^verbatim>\<open>{ streamActivity, sessionDetails }\<close>, both \<^verbatim>\<open>null\<close> when nothing was closed:
  \<open>None\<close> here.
\<close>

definition endStreamSession ::
  "int \<Rightarrow> time_periods \<Rightarrow> key \<Rightarrow> store \<Rightarrow> store \<times> (activity \<times> session_details) option" where
  "endStreamSession now cur k st =
     (case findOne k st of
        None \<Rightarrow> (st, None)
      | Some a \<Rightarrow>
          if streams a = [] then (st, None)
          else if endTime (last (streams a)) = None then
            (let a' = endStream now cur a
             in (save k a a' st, Some (a', details_of (last (streams a')))))
          else (st, None))"

definition startStreamSession ::
  "int \<Rightarrow> time_periods \<Rightarrow> key \<Rightarrow> string \<Rightarrow> string \<Rightarrow> string \<Rightarrow> string \<Rightarrow> store
     \<Rightarrow> store \<times> activity" where
  "startStreamSession now cur k uname gname cid cname st =
     (let (streamActivity, st1) = getOrCreateStreamActivity now cur k uname gname st;
          st2 = fst (endStreamSession now cur k st1);
          started = startStream now cur cid cname streamActivity
      in (save k streamActivity started st2, started))"

definition bump_count :: "period_total option \<Rightarrow> period_total option" where
  \<comment> \<open>\<^verbatim>\<open>if (streamActivity.currentDailyTotal) { ... .streamCount += 1 }\<close>\<close>
  "bump_count t = (case t of None \<Rightarrow> None | Some w \<Rightarrow> Some (w\<lparr>streamCount := streamCount w + 1\<rparr>))"

definition interruptLatest :: "int \<Rightarrow> activity \<Rightarrow> activity" where
  \<comment> \<open>the body of the branch of \<open>markStreamAsInterrupted\<close> that closes the open stream\<close>
  "interruptLatest now a =
     (let latestStream = last (streams a);
          d = minutes_between (startTime latestStream) now
      in a\<lparr>streams := butlast (streams a) @
              [latestStream\<lparr>interrupted := True, endTime := Some now, duration := d\<rparr>],
           totalStreams := totalStreams a + 1,
           currentDailyTotal := bump_count (currentDailyTotal a),
           currentWeeklyTotal := bump_count (currentWeeklyTotal a),
           currentMonthlyTotal := bump_count (currentMonthlyTotal a),
           lastUpdated := now\<rparr>)"

definition markStreamAsInterrupted ::
  "int \<Rightarrow> key \<Rightarrow> store \<Rightarrow> store \<times> (activity \<times> session_details) option" where
  "markStreamAsInterrupted now k st =
     (case findOne k st of
        None \<Rightarrow> (st, None)
      | Some a \<Rightarrow>
          if streams a = [] then (st, None)
          else if endTime (last (streams a)) = None then
            (let a' = interruptLatest now a
             in (save k a a' st, Some (a', details_of (last (streams a')))))
          else (st, None))"

section \<open>Rounding as JavaScript does it\<close>

text \<open>
  \<^verbatim>\<open>Math.round(d / n)\<close> for an integer \<open>d\<close> and a positive integer \<open>n\<close>: the nearest
  integer, a tie going up, that is \<open>\<lfloor>d / n + 1/2\<rfloor>\<close>.
\<close>

definition js_round_div :: "int \<Rightarrow> int \<Rightarrow> int" where
  "js_round_div d n = (2 * d + n) div (2 * n)"

section \<open>Concrete inputs\<close>

definition ex_key :: key where "ex_key = (''u1'', ''g1'')"

definition ex_periods :: time_periods where
  "ex_periods = \<lparr>p_day = ''2025-04-30'', p_week = ''2025-18'', p_month = ''2025-04''\<rparr>"

definition ex_open_store :: store where
  "ex_open_store = fst (startStreamSession 0 ex_periods ex_key ''alice'' ''guild'' ''c1'' ''General'' [])"

section \<open>Sequences of tracker operations on one key\<close>

datatype op =
    StartSession int time_periods string string string string
  | EndSession int time_periods
  | MarkInterrupted int

fun apply_op :: "key \<Rightarrow> store \<Rightarrow> op \<Rightarrow> store" where
  "apply_op k st (StartSession now cur uname gname cid cname) =
     fst (startStreamSession now cur k uname gname cid cname st)"
| "apply_op k st (EndSession now cur) = fst (endStreamSession now cur k st)"
| "apply_op k st (MarkInterrupted now) = fst (markStreamAsInterrupted now k st)"






definition ex_stale_store :: store where
  "ex_stale_store =
     [(ex_key, (startStream 0 ex_periods ''c1'' ''General'' (new_activity 0 ex_periods ''alice'' ''guild''))
        \<lparr>currentDailyTotal := Some \<lparr>periodKey = ''2025-04-29'', totalMinutes = 50, streamCount = 3\<rparr>\<rparr>)]"

section \<open>The leaderboard (getServerStreamLeaderboard in src/utils/streamUtils.js)\<close>

record leaderboard_entry =
  lb_userId :: string
  lb_username :: string
  streamTime :: int
  lb_streamCount :: int

definition find_guild :: "string \<Rightarrow> store \<Rightarrow> (string \<times> activity) list" where
  \<comment> \<open>\<^verbatim>\<open>StreamActivity.find({ guildId })\<close>: the documents of the guild, each with its user id\<close>
  "find_guild gid st = map (\<lambda>(k, a). (fst k, a)) (filter (\<lambda>(k, a). snd k = gid) st)"

definition period_stats :: "string \<Rightarrow> activity \<Rightarrow> int \<times> int" where
  \<comment> \<open>the \<^verbatim>\<open>switch(period)\<close>: stream time and stream count of the requested period\<close>
  "period_stats period user =
     (if period = ''day'' then
        (case currentDailyTotal user of None \<Rightarrow> (0, 0) | Some w \<Rightarrow> (totalMinutes w, streamCount w))
      else if period = ''week'' then
        (case currentWeeklyTotal user of None \<Rightarrow> (0, 0) | Some w \<Rightarrow> (totalMinutes w, streamCount w))
      else if period = ''month'' then
        (case currentMonthlyTotal user of None \<Rightarrow> (0, 0) | Some w \<Rightarrow> (totalMinutes w, streamCount w))
      else (totalStreamTime user, totalStreams user))"

definition leaderboard_row :: "string \<Rightarrow> string \<times> activity \<Rightarrow> leaderboard_entry" where
  "leaderboard_row period u =
     \<lparr>lb_userId = fst u, lb_username = username (snd u),
      streamTime = fst (period_stats period (snd u)),
      lb_streamCount = snd (period_stats period (snd u))\<rparr>"

definition js_slice0 :: "int \<Rightarrow> 'a list \<Rightarrow> 'a list" where
  \<comment> \<open>\<^verbatim>\<open>xs.slice(0, n)\<close>: a negative \<open>n\<close> counts from the end of the array\<close>
  "js_slice0 n xs = (if n < 0 then take (nat (int (length xs) + n)) xs else take (nat n) xs)"

definition getServerStreamLeaderboard :: "string \<Rightarrow> string \<Rightarrow> int \<Rightarrow> store \<Rightarrow> leaderboard_entry list" where
  \<comment> \<open>\<^verbatim>\<open>sort((a, b) => b.streamTime - a.streamTime)\<close> is a stable sort by descending
      stream time, as \<open>sort_key\<close> on the negated time is\<close>
  "getServerStreamLeaderboard gid period limit st =
     (let users = find_guild gid st in
      if users = [] then []
      else js_slice0 limit
             (sort_key (\<lambda>e. - streamTime e)
               (filter (\<lambda>user. streamTime user > 0) (map (leaderboard_row period) users))))"

definition ex_key2 :: key where "ex_key2 = (''u2'', ''g1'')"

definition ex_periods_prev :: time_periods where
  "ex_periods_prev = \<lparr>p_day = ''2025-04-29'', p_week = ''2025-18'', p_month = ''2025-04''\<rparr>"

definition ex_board_store :: store where
  \<comment> \<open>guild g1: alice's one session was interrupted; bob streamed 10 minutes on 2025-04-30;
      carol 30 minutes on 2025-04-29 and 5 minutes on 2025-04-30; dave 20 minutes on
      2025-04-30. Guild g2: erin streamed 50 minutes.\<close>
  "ex_board_store =
     foldl (apply_op (''u5'', ''g2''))
      (foldl (apply_op (''u4'', ''g1''))
        (foldl (apply_op (''u3'', ''g1''))
          (foldl (apply_op ex_key2)
            (foldl (apply_op ex_key) []
               [StartSession 0 ex_periods ''alice'' ''guild'' ''c1'' ''General'', MarkInterrupted 1800000])
            [StartSession 0 ex_periods ''bob'' ''guild'' ''c1'' ''General'', EndSession 600000 ex_periods])
          [StartSession 0 ex_periods_prev ''carol'' ''guild'' ''c1'' ''General'',
           EndSession 1800000 ex_periods_prev,
           StartSession 2000000 ex_periods ''carol'' ''guild'' ''c1'' ''General'',
           EndSession 2300000 ex_periods])
        [StartSession 0 ex_periods ''dave'' ''guild'' ''c1'' ''General'', EndSession 1200000 ex_periods])
      [StartSession 0 ex_periods ''erin'' ''other'' ''c7'' ''Lobby'', EndSession 3000000 ex_periods]"

definition ex_board :: "string \<Rightarrow> int \<Rightarrow> (string \<times> int) list" where
  \<comment> \<open>user id and stream time of the entries of the example's leaderboard for guild g1\<close>
  "ex_board period limit =
     map (\<lambda>e. (lb_userId e, streamTime e)) (getServerStreamLeaderboard ''g1'' period limit ex_board_store)"

section \<open>The report aggregator (src/unnamed/part_001, the report utility)\<close>

text \<open>
  \<open>generateHourlyReport\<close> and \<open>generateDailyReport\<close> differ in how the window is derived
  from the clock, in the order of the users and in the page titles; the rest of the two
  bodies is the same text. The window \<open>[startTime, endTime]\<close> is an input here (its
  derivation from the clock and the guild's timezone is not modelled), and one body,
  \<open>report_body\<close>, takes the kind of report as a parameter.
\<close>

text \<open>
  The exceptions of the model. \<open>StoreUnavailable\<close> is a rejected store call with the
  short message of a lost connection, \<open>StoreError m\<close> a rejected store call whose
  error carries the message \<open>m\<close>, and \<open>ValidationError\<close> what the embed builder of
  discord.js throws when a value breaks one of its limits.
\<close>

datatype error = StoreUnavailable | ReferenceError string | TypeError | StoreError string
  | ValidationError

definition message :: "error \<Rightarrow> string" where
  \<comment> \<open>\<^verbatim>\<open>error.message\<close>\<close>
  "message err =
     (case err of
        StoreUnavailable \<Rightarrow> ''connection timed out''
      | ReferenceError name \<Rightarrow> name @ '' is not defined''
      | TypeError \<Rightarrow> ''Cannot read properties of undefined''
      | StoreError m \<Rightarrow> m
      | ValidationError \<Rightarrow> ''Invalid string length'')"

datatype report_kind = Hourly | Daily

record report_stream =
  r_userId :: string
  r_username :: string
  r_startTime :: int
  r_endTime :: "int option"
  r_channelId :: string
  r_channelName :: string
  r_interrupted :: bool
  isIncomplete :: bool
  r_duration :: int

definition MAX_STREAMS_PER_PAGE :: nat where
  "MAX_STREAMS_PER_PAGE = 6"

definition in_period :: "int \<Rightarrow> int \<Rightarrow> stream \<Rightarrow> bool" where
  "in_period startT endT s =
     (let streamStartInPeriod = (startTime s \<ge> startT \<and> startTime s \<le> endT);
          streamEndInPeriod = (case endTime s of None \<Rightarrow> False | Some e \<Rightarrow> e \<ge> startT \<and> e \<le> endT);
          streamSpansPeriod =
            (startTime s \<le> startT \<and> (case endTime s of None \<Rightarrow> True | Some e \<Rightarrow> e \<ge> endT))
      in streamStartInPeriod \<or> streamEndInPeriod \<or> streamSpansPeriod)"

definition find_report :: "string \<Rightarrow> int \<Rightarrow> int \<Rightarrow> store \<Rightarrow> (string \<times> activity) list" where
  \<comment> \<open>\<^verbatim>\<open>StreamActivity.find({ guildId, streams: { $elemMatch: { $or: [...] } } })\<close>: the
      three arms of the query are the three tests of \<open>in_period\<close>\<close>
  "find_report gid startT endT st =
     filter (\<lambda>(uid, a). list_ex (in_period startT endT) (streams a)) (find_guild gid st)"

definition processed :: "string \<Rightarrow> string \<Rightarrow> stream \<Rightarrow> report_stream" where
  "processed uid uname s =
     \<lparr>r_userId = uid, r_username = uname, r_startTime = startTime s, r_endTime = endTime s,
      r_channelId = channelId s, r_channelName = channelName s, r_interrupted = interrupted s,
      isIncomplete = (endTime s = None), r_duration = duration s\<rparr>"

text \<open>
  The inner loop over the streams of one activity. \<open>seen\<close> is \<^verbatim>\<open>userStreamCounts\<close>: the
  stream identifiers \<^verbatim>\<open>`${startTime.getTime()}-${channelId}`\<close> already processed for
  each user, kept as triples of user id, start time and channel id.
\<close>

fun add_streams ::
  "string \<Rightarrow> string \<Rightarrow> int \<Rightarrow> int \<Rightarrow> stream list
     \<Rightarrow> (string \<times> int \<times> string) list \<times> report_stream list
     \<Rightarrow> (string \<times> int \<times> string) list \<times> report_stream list" where
  "add_streams uid uname startT endT [] acc = acc"
| "add_streams uid uname startT endT (s # ss) (seen, out) =
     (if in_period startT endT s then
        (if (uid, startTime s, channelId s) \<in> set seen
         then add_streams uid uname startT endT ss (seen, out)
         else add_streams uid uname startT endT ss
                ((uid, startTime s, channelId s) # seen, out @ [processed uid uname s]))
      else add_streams uid uname startT endT ss (seen, out))"

fun process_activities ::
  "int \<Rightarrow> int \<Rightarrow> (string \<times> activity) list
     \<Rightarrow> (string \<times> int \<times> string) list \<times> report_stream list
     \<Rightarrow> (string \<times> int \<times> string) list \<times> report_stream list" where
  "process_activities startT endT [] acc = acc"
| "process_activities startT endT ((uid, a) # rest) acc =
     process_activities startT endT rest (add_streams uid (username a) startT endT (streams a) acc)"

definition durationSec :: "int \<Rightarrow> int \<Rightarrow> report_stream \<Rightarrow> int" where
  \<comment> \<open>the duration of one stream within the report period, in seconds\<close>
  "durationSec startT endT s =
     (if isIncomplete s then
        (let streamStart = (if r_startTime s > startT then r_startTime s else startT);
             streamEnd = endT
         in max 0 (js_round_div (streamEnd - streamStart) 1000))
      else if r_duration s \<noteq> 0 \<and> r_duration s > 0 then r_duration s * 60
      else
        (let streamStart = (if r_startTime s > startT then r_startTime s else startT);
             streamEnd = (case r_endTime s of None \<Rightarrow> endT | Some e \<Rightarrow> if e < endT then e else endT)
         in max 0 (js_round_div (streamEnd - streamStart) 1000)))"

record user_streams =
  u_username :: string
  u_streamCount :: nat
  u_totalDuration :: int
  u_incompleteCount :: nat
  u_streams :: "report_stream list"

text \<open>
  \<^verbatim>\<open>userStreams\<close> is an object keyed by user id. Its keys are Discord snowflakes, which
  are not array indices, so \<^verbatim>\<open>Object.keys\<close> lists them in insertion order: an
  association list that \<open>AList.update\<close> extends at the end. The stream pushed to a
  user's list is the processed stream with its duration replaced by \<open>durationSec\<close>.
\<close>

definition group_stream ::
  "int \<Rightarrow> int \<Rightarrow> (string \<times> user_streams) list \<Rightarrow> report_stream \<Rightarrow> (string \<times> user_streams) list" where
  "group_stream startT endT userStreams s =
     (let u = (case map_of userStreams (r_userId s) of
                 None \<Rightarrow> \<lparr>u_username = r_username s, u_streamCount = 0, u_totalDuration = 0,
                           u_incompleteCount = 0, u_streams = []\<rparr>
               | Some u \<Rightarrow> u);
          d = durationSec startT endT s
      in AList.update (r_userId s)
           (u\<lparr>u_streamCount := u_streamCount u + 1,
              u_totalDuration := u_totalDuration u + d,
              u_incompleteCount := (if isIncomplete s then u_incompleteCount u + 1 else u_incompleteCount u),
              u_streams := u_streams u @ [s\<lparr>r_duration := d\<rparr>]\<rparr>)
           userStreams)"

datatype title = ReportTitle report_kind | PageTitle report_kind nat | PageOfTitle report_kind nat nat
  | ErrorTitle

datatype description = PeriodDescription int int | ErrorDescription error

datatype field =
    NoStreams
  | Summary nat nat nat int nat
  | UserField string nat nat int "report_stream list"

record embed =
  title :: title
  description :: description
  e_fields :: "field list"

datatype entry = UserHeader string nat int nat | StreamEntry report_stream

definition user_entries :: "user_streams \<Rightarrow> entry list" where
  "user_entries user =
     UserHeader (u_username user) (u_streamCount user) (u_totalDuration user) (u_incompleteCount user)
       # map StreamEntry (u_streams user)"

record pages =
  embeds :: "embed list"
  currentPage :: nat
  streamsOnCurrentPage :: nat
  currentEmbed :: "embed option"
  currentUserContent :: "report_stream list"
  currentUserId :: "string option"

text \<open>
  \<^verbatim>\<open>currentUserContent\<close> is a string to which every stream entry appends a block of five
  lines; it is modelled by the list of the streams appended, empty when the string is
  empty. \<open>user_field\<close> builds the field that carries a user's heading and content; it
  reads \<^verbatim>\<open>userStreams[currentUserId]\<close> and throws a TypeError when there is no such user.
\<close>

definition user_field ::
  "(string \<times> user_streams) list \<Rightarrow> string option \<Rightarrow> report_stream list \<Rightarrow> error + field" where
  "user_field userStreams uid content =
     (case uid of None \<Rightarrow> Inl TypeError
      | Some i \<Rightarrow> (case map_of userStreams i of None \<Rightarrow> Inl TypeError
          | Some user \<Rightarrow> Inr (UserField (u_username user) (u_streamCount user) (u_incompleteCount user)
                                (u_totalDuration user) content)))"

definition add_field :: "field \<Rightarrow> embed \<Rightarrow> embed" where
  "add_field f e = e\<lparr>e_fields := e_fields e @ [f]\<rparr>"

definition is_header :: "entry \<Rightarrow> bool" where
  "is_header e = (case e of UserHeader _ _ _ _ \<Rightarrow> True | StreamEntry _ \<Rightarrow> False)"

definition close_page :: "(string \<times> user_streams) list \<Rightarrow> pages \<Rightarrow> error + pages" where
  \<comment> \<open>\<^verbatim>\<open>if (currentEmbed && currentUserContent) { currentEmbed.addFields(...); embeds.push(currentEmbed) }\<close>\<close>
  "close_page userStreams p =
     (case currentEmbed p of
        None \<Rightarrow> Inr p
      | Some e \<Rightarrow>
          if currentUserContent p = [] then Inr p
          else (case user_field userStreams (currentUserId p) (currentUserContent p) of
                  Inl err \<Rightarrow> Inl err
                | Inr f \<Rightarrow> Inr (p\<lparr>embeds := embeds p @ [add_field f e]\<rparr>)))"

definition new_page :: "report_kind \<Rightarrow> embed \<Rightarrow> field \<Rightarrow> nat \<Rightarrow> pages \<Rightarrow> pages" where
  "new_page kind baseEmbed summaryField estimatedPageCount p =
     p\<lparr>currentEmbed :=
         Some \<lparr>title = (if estimatedPageCount > 1 then PageTitle kind (currentPage p + 1)
                         else title baseEmbed),
               description = description baseEmbed, e_fields = [summaryField]\<rparr>,
       currentPage := currentPage p + 1,
       streamsOnCurrentPage := 0,
       currentUserContent := [],
       currentUserId := None\<rparr>"

text \<open>
  \<open>place_entry\<close> is the second half of the loop body. The \<^verbatim>\<open>find\<close> by user name
  cannot fail, since every header was built from a user of that list; \<open>None\<close> stands
  for the \<^verbatim>\<open>null\<close> that a new page assigns to \<^verbatim>\<open>currentUserId\<close>.
\<close>

definition place_entry ::
  "(string \<times> user_streams) list \<Rightarrow> string list \<Rightarrow> pages \<Rightarrow> entry \<Rightarrow> error + pages" where
  "place_entry userStreams ids p e =
     (case e of
        UserHeader uname _ _ _ \<Rightarrow>
          (let found = find (\<lambda>i. map_option u_username (map_of userStreams i) = Some uname) ids in
           if currentUserId p \<noteq> None \<and> currentUserContent p \<noteq> [] then
             (case user_field userStreams (currentUserId p) (currentUserContent p) of
                Inl err \<Rightarrow> Inl err
              | Inr f \<Rightarrow> Inr (p\<lparr>currentEmbed := map_option (add_field f) (currentEmbed p),
                                 currentUserContent := [], currentUserId := found\<rparr>))
           else Inr (p\<lparr>currentUserId := found\<rparr>))
      | StreamEntry s \<Rightarrow>
          Inr (p\<lparr>currentUserContent := currentUserContent p @ [s],
                 streamsOnCurrentPage := streamsOnCurrentPage p + 1\<rparr>))"

fun paginate ::
  "report_kind \<Rightarrow> embed \<Rightarrow> field \<Rightarrow> nat \<Rightarrow> (string \<times> user_streams) list \<Rightarrow> string list
     \<Rightarrow> entry list \<Rightarrow> pages \<Rightarrow> error + pages" where
  "paginate kind baseEmbed summaryField est userStreams ids [] p = Inr p"
| "paginate kind baseEmbed summaryField est userStreams ids (e # es) p =
     (if currentEmbed p = None \<or> (streamsOnCurrentPage p \<ge> MAX_STREAMS_PER_PAGE \<and> is_header e) then
        (case close_page userStreams p of
           Inl err \<Rightarrow> Inl err
         | Inr p1 \<Rightarrow>
             (case place_entry userStreams ids (new_page kind baseEmbed summaryField est p1) e of
                Inl err \<Rightarrow> Inl err
              | Inr p2 \<Rightarrow> paginate kind baseEmbed summaryField est userStreams ids es p2))
      else
        (case place_entry userStreams ids p e of
           Inl err \<Rightarrow> Inl err
         | Inr p2 \<Rightarrow> paginate kind baseEmbed summaryField est userStreams ids es p2))"

definition number_pages :: "report_kind \<Rightarrow> embed list \<Rightarrow> embed list" where
  \<comment> \<open>the titles are rewritten with the actual page count when there is more than one page\<close>
  "number_pages kind es =
     (if length es > 1
      then map (\<lambda>(i, e). e\<lparr>title := PageOfTitle kind (i + 1) (length es)\<rparr>) (enumerate 0 es)
      else es)"

definition create_pages ::
  "report_kind \<Rightarrow> embed \<Rightarrow> field \<Rightarrow> nat \<Rightarrow> (string \<times> user_streams) list \<Rightarrow> string list
     \<Rightarrow> entry list \<Rightarrow> error + embed list" where
  \<comment> \<open>from \<^verbatim>\<open>const embeds = []\<close> to \<^verbatim>\<open>return embeds\<close>\<close>
  "create_pages kind baseEmbed summaryField est userStreams ids allStreamEntries =
     (case paginate kind baseEmbed summaryField est userStreams ids allStreamEntries
             \<lparr>embeds = [], currentPage = 0, streamsOnCurrentPage = 0, currentEmbed = None,
              currentUserContent = [], currentUserId = None\<rparr> of
        Inl err \<Rightarrow> Inl err
      | Inr p \<Rightarrow> (case close_page userStreams p of
                    Inl err \<Rightarrow> Inl err
                  | Inr p' \<Rightarrow> Inr (number_pages kind (embeds p'))))"

text \<open>
  The statement \<^verbatim>\<open>logger.addRequestStep(requestId, 'creating-pages', { pageCount, ... })\<close>
  (line 229, and line 616 in the daily report) reads the identifier \<^verbatim>\<open>pageCount\<close>. The
  module declares no such binding (the function declares \<^verbatim>\<open>estimatedPageCount\<close>), so
  evaluating it throws a ReferenceError.
\<close>

definition pageCount :: "error + nat" where
  "pageCount = Inl (ReferenceError ''pageCount'')"

definition report_body :: "report_kind \<Rightarrow> error + store \<Rightarrow> string \<Rightarrow> int \<Rightarrow> int \<Rightarrow> error + embed list" where
  \<comment> \<open>the \<^verbatim>\<open>try\<close> block; \<open>db\<close> is \<open>Inl\<close> when the store query rejects\<close>
  "report_body kind db gid startT endT =
     (case db of
        Inl err \<Rightarrow> Inl err
      | Inr st \<Rightarrow>
          (let streamActivities = find_report gid startT endT st;
               processedStreams = sort_key (\<lambda>s. - r_startTime s)
                 (snd (process_activities startT endT streamActivities ([], [])));
               baseEmbed = \<lparr>title = ReportTitle kind, description = PeriodDescription startT endT,
                            e_fields = []\<rparr>
           in if processedStreams = [] then Inr [add_field NoStreams baseEmbed]
              else
                (let userStreams = foldl (group_stream startT endT) [] processedStreams;
                     totalStreamTime = sum_list (map (durationSec startT endT) processedStreams);
                     totalStreamCount = length processedStreams;
                     incompleteStreamCount = length (filter isIncomplete processedStreams);
                     summaryField = Summary totalStreamCount (totalStreamCount - incompleteStreamCount)
                       incompleteStreamCount totalStreamTime (length userStreams);
                     ids = (case kind of
                              Hourly \<Rightarrow> map fst userStreams
                            | Daily \<Rightarrow> map fst (sort_key (\<lambda>(i, u). - u_totalDuration u) userStreams));
                     allStreamEntries =
                       concat (map (\<lambda>i. case map_of userStreams i of None \<Rightarrow> []
                                         | Some user \<Rightarrow> user_entries user) ids);
                     estimatedPageCount =
                       (totalStreamCount + MAX_STREAMS_PER_PAGE - 1) div MAX_STREAMS_PER_PAGE
                 in case pageCount of
                      Inl err \<Rightarrow> Inl err
                    | Inr n \<Rightarrow> create_pages kind baseEmbed summaryField estimatedPageCount
                               userStreams ids allStreamEntries)))"

text \<open>
  The \<^verbatim>\<open>catch\<close> block builds the error page with
  \<^verbatim>\<open>setDescription(`An error occurred while generating the stream report: ${error.message}`)\<close>.
  The embed builder of discord.js refuses a description of more than 4096 characters by
  throwing, and nothing in the block bounds the message: \<open>errorEmbed\<close> is \<open>Inl\<close> then,
  and the exception leaves the function, whose result is \<open>Inl\<close> in turn. A result
  \<open>Inr\<close> is the array of pages the function returns.
\<close>

definition description_limit :: nat where
  "description_limit = 4096"

definition error_text :: "error \<Rightarrow> string" where
  "error_text err = ''An error occurred while generating the stream report: '' @ message err"

definition errorPage :: "error \<Rightarrow> embed" where
  "errorPage err = \<lparr>title = ErrorTitle, description = ErrorDescription err, e_fields = []\<rparr>"

definition errorEmbed :: "error \<Rightarrow> error + embed" where
  "errorEmbed err =
     (if length (error_text err) > description_limit then Inl ValidationError
      else Inr (errorPage err))"

definition catch_block :: "error \<Rightarrow> error + embed list" where
  \<comment> \<open>\<^verbatim>\<open>catch (error) { logger.error(...); const errorEmbed = ...; return [errorEmbed]; }\<close>\<close>
  "catch_block err = (case errorEmbed err of Inl thrown \<Rightarrow> Inl thrown | Inr e \<Rightarrow> Inr [e])"

definition generate_report ::
  "report_kind \<Rightarrow> error + store \<Rightarrow> string \<Rightarrow> int \<Rightarrow> int \<Rightarrow> error + embed list" where
  \<comment> \<open>\<^verbatim>\<open>try { ... } catch (error) { ... }\<close>\<close>
  "generate_report kind db gid startT endT =
     (case report_body kind db gid startT endT of Inl err \<Rightarrow> catch_block err | Inr es \<Rightarrow> Inr es)"

definition generateHourlyReport :: "error + store \<Rightarrow> string \<Rightarrow> int \<Rightarrow> int \<Rightarrow> error + embed list" where
  "generateHourlyReport db gid startT endT = generate_report Hourly db gid startT endT"

text \<open>
  The daily report first reads the guild's configuration for its timezone; \<open>cfg\<close> is
  \<open>Inl\<close> when that query rejects. The end of \<open>generateDailyReport\<close> is cut off in
  part_001; its \<^verbatim>\<open>catch\<close> block is read from the copy of the report utility that
  follows the model in src/models/StreamActivity.js, where it is the hourly one with
  another log message.
\<close>

definition generateDailyReport ::
  "error + unit \<Rightarrow> error + store \<Rightarrow> string \<Rightarrow> int \<Rightarrow> int \<Rightarrow> error + embed list" where
  "generateDailyReport cfg db gid startT endT =
     (case cfg of Inl err \<Rightarrow> catch_block err
      | Inr _ \<Rightarrow> generate_report Daily db gid startT endT)"

definition ex_session :: report_stream where
  \<comment> \<open>started at 10:50, closed by \<open>endStream\<close> at 11:10 (milliseconds since midnight)\<close>
  "ex_session = processed ''u1'' ''alice''
     (last (streams (endStream 40200000 ex_periods
        (startStream 39000000 ex_periods ''c1'' ''General'' (new_activity 0 ex_periods ''alice'' ''guild'')))))"

definition ex_open_session :: report_stream where
  "ex_open_session = processed ''u1'' ''alice''
     (last (streams (startStream 39000000 ex_periods ''c1'' ''General'' (new_activity 0 ex_periods ''alice'' ''guild''))))"

definition clipped_duration_spec :: "int \<Rightarrow> int \<Rightarrow> int \<Rightarrow> int option \<Rightarrow> int" where
  "clipped_duration_spec windowStart windowEnd start end' =
     max 0 (js_round_div (min (case end' of None \<Rightarrow> windowEnd | Some e \<Rightarrow> e) windowEnd
                            - max start windowStart) 1000)"

definition ex_session_ops :: "int \<Rightarrow> op list" where
  "ex_session_ops t = [StartSession t ex_periods ''alice'' ''guild'' ''c1'' ''General'',
                       EndSession (t + 60000) ex_periods]"

definition ex_report_store :: store where
  "ex_report_store =
     foldl (apply_op ex_key2)
       (foldl (apply_op ex_key) []
          (concat (map ex_session_ops [0, 100000, 200000, 300000, 400000, 500000, 600000, 700000])))
       [StartSession 800000 ex_periods ''bob'' ''guild'' ''c1'' ''General'',
        EndSession 860000 ex_periods]"

definition ex_processed :: "report_stream list" where
  "ex_processed = sort_key (\<lambda>s. - r_startTime s)
     (snd (process_activities 0 3600000 (find_report ''g1'' 0 3600000 ex_report_store) ([], [])))"

definition ex_userStreams :: "(string \<times> user_streams) list" where
  "ex_userStreams = foldl (group_stream 0 3600000) [] ex_processed"

definition ex_entries :: "string list \<Rightarrow> entry list" where
  "ex_entries ids = concat (map (\<lambda>i. case map_of ex_userStreams i of None \<Rightarrow> []
                                         | Some user \<Rightarrow> user_entries user) ids)"

definition no_activity :: "string \<Rightarrow> int \<Rightarrow> int \<Rightarrow> store \<Rightarrow> bool" where
  \<comment> \<open>no session of the guild overlaps the window\<close>
  "no_activity gid startT endT st =
     list_all (\<lambda>(k, a). snd k = gid \<longrightarrow> list_all (\<lambda>s. \<not> in_period startT endT s) (streams a)) st"

definition noStreamsEmbed :: "report_kind \<Rightarrow> int \<Rightarrow> int \<Rightarrow> embed" where
  "noStreamsEmbed kind startT endT =
     \<lparr>title = ReportTitle kind, description = PeriodDescription startT endT, e_fields = [NoStreams]\<rparr>"

section \<open>Crash recovery (checkPreviousSessionStreams in src/index.js)\<close>

record active_stream =
  as_userId :: string
  as_username :: string
  as_guildId :: string
  as_guildName :: string
  as_channelId :: string
  as_channelName :: string
  as_startTime :: int

record voice_state =
  v_channelId :: "string option"
  v_streaming :: bool

text \<open>
  What recovery reads from outside the tracker: whether the guild is in the client's
  cache, whether \<^verbatim>\<open>client.users.fetch\<close> resolves the user, and the voice state of the
  member that \<^verbatim>\<open>guild.members.fetch\<close> resolves; a rejected fetch is turned into
  \<^verbatim>\<open>null\<close> by \<^verbatim>\<open>.catch(() => null)\<close> and is \<open>False\<close> or \<open>None\<close> here. The store
  may be disconnected (\<^verbatim>\<open>readyState !== 1\<close>), reject the query for the active streams,
  or reject the calls made for one key.
\<close>

record recovery_env =
  guild_known :: "string \<Rightarrow> bool"
  user_found :: "string \<Rightarrow> bool"
  member_voice :: "string \<Rightarrow> string \<Rightarrow> voice_state option"
  store_ready :: bool
  find_rejects :: bool
  store_rejects :: "key \<Rightarrow> bool"

definition active_of :: "key \<times> activity \<Rightarrow> active_stream" where
  "active_of d =
     (let latestStream = last (streams (snd d)) in
      \<lparr>as_userId = fst (fst d), as_username = username (snd d), as_guildId = snd (fst d),
       as_guildName = guildName (snd d), as_channelId = channelId latestStream,
       as_channelName = channelName latestStream, as_startTime = startTime latestStream\<rparr>)"

definition getAllActiveStreams :: "recovery_env \<Rightarrow> store \<Rightarrow> active_stream list" where
  \<comment> \<open>the query keeps the documents with a stream whose \<^verbatim>\<open>endTime\<close> is null, the reduce
      those whose latest stream is open; a failure gives the empty list\<close>
  "getAllActiveStreams env st =
     (if \<not> store_ready env then []
      else if find_rejects env then []
      else map active_of
             (filter (\<lambda>d. endTime (last (streams (snd d))) = None)
               (filter (\<lambda>d. list_ex (\<lambda>s. endTime s = None) (streams (snd d))) st)))"

definition try_markStreamAsInterrupted ::
  "recovery_env \<Rightarrow> int \<Rightarrow> key \<Rightarrow> store \<Rightarrow> error + store \<times> (activity \<times> session_details) option" where
  \<comment> \<open>\<open>markStreamAsInterrupted\<close> with its \<^verbatim>\<open>catch (error) { ...; throw error; }\<close>: a store
      call that rejects leaves the collection as it is and the error goes to the caller\<close>
  "try_markStreamAsInterrupted env now k st =
     (if store_rejects env k then Inl StoreUnavailable else Inr (markStreamAsInterrupted now k st))"

definition isCurrentlyStreaming :: "recovery_env \<Rightarrow> active_stream \<Rightarrow> bool" where
  \<comment> \<open>\<^verbatim>\<open>member && member.voice.channelId && member.voice.streaming &&
      member.voice.channelId === stream.channelId\<close>\<close>
  "isCurrentlyStreaming env s =
     (case member_voice env (as_guildId s) (as_userId s) of
        None \<Rightarrow> False
      | Some v \<Rightarrow> (case v_channelId v of
                     None \<Rightarrow> False
                   | Some c \<Rightarrow> c \<noteq> [] \<and> v_streaming v \<and> c = as_channelId s))"

record notification =
  n_userId :: string
  n_guildId :: string
  n_channelId :: string
  n_duration :: int
  n_interrupted :: bool

text \<open>
  The loop over the active streams. An exception leaves the loop: the result carries the
  collection and the notifications as they are at that moment, and the error. The clock
  readings of one run are modelled by the one value \<open>now\<close>.
  \<open>sendStreamNotification\<close> catches its own errors; it is modelled by the notification
  it is asked to send.
\<close>

fun reconcile ::
  "recovery_env \<Rightarrow> int \<Rightarrow> active_stream list \<Rightarrow> store \<times> notification list
     \<Rightarrow> (store \<times> notification list) \<times> error option" where
  "reconcile env now [] acc = (acc, None)"
| "reconcile env now (s # ss) (st, sent) =
     (if \<not> guild_known env (as_guildId s) then
        (case try_markStreamAsInterrupted env now (as_userId s, as_guildId s) st of
           Inl err \<Rightarrow> ((st, sent), Some err)
         | Inr (st', result) \<Rightarrow> reconcile env now ss (st', sent))
      else if \<not> user_found env (as_userId s) then
        (case try_markStreamAsInterrupted env now (as_userId s, as_guildId s) st of
           Inl err \<Rightarrow> ((st, sent), Some err)
         | Inr (st', result) \<Rightarrow> reconcile env now ss (st', sent))
      else if \<not> isCurrentlyStreaming env s then
        (case try_markStreamAsInterrupted env now (as_userId s, as_guildId s) st of
           Inl err \<Rightarrow> ((st, sent), Some err)
         | Inr (st', result) \<Rightarrow>
             reconcile env now ss
               (st', (case result of
                        None \<Rightarrow> sent
                      | Some (a, sd) \<Rightarrow>
                          sent @ [\<lparr>n_userId = as_userId s, n_guildId = as_guildId s,
                                    n_channelId = as_channelId s, n_duration = sd_duration sd,
                                    n_interrupted = True\<rparr>])))
      else reconcile env now ss (st, sent))"

definition checkPreviousSessionStreams ::
  "recovery_env \<Rightarrow> int \<Rightarrow> store \<Rightarrow> (store \<times> notification list) \<times> error option" where
  \<comment> \<open>the \<^verbatim>\<open>catch\<close> around the whole function logs the error and returns; the error is
      kept in the result to show where the loop stopped\<close>
  "checkPreviousSessionStreams env now st =
     (let activeStreams = getAllActiveStreams env st in
      if activeStreams = [] then ((st, []), None)
      else reconcile env now activeStreams (st, []))"

definition ex_two_open :: store where
  "ex_two_open =
     foldl (apply_op ex_key2)
       (foldl (apply_op ex_key) [] [StartSession 0 ex_periods ''alice'' ''guild'' ''c1'' ''General''])
       [StartSession 1000 ex_periods ''bob'' ''guild'' ''c2'' ''Gaming'']"

definition ex_env :: recovery_env where
  \<comment> \<open>both guilds and users resolve; Alice streams in c9 now, Bob still streams in c2\<close>
  "ex_env =
     \<lparr>guild_known = (\<lambda>g. True), user_found = (\<lambda>u. True),
      member_voice = (\<lambda>g u. if u = ''u1'' then Some \<lparr>v_channelId = Some ''c9'', v_streaming = True\<rparr>
                             else Some \<lparr>v_channelId = Some ''c2'', v_streaming = True\<rparr>),
      store_ready = True, find_rejects = False, store_rejects = (\<lambda>k. False)\<rparr>"

definition ex_env_failing :: recovery_env where
  \<comment> \<open>nobody streams any more, and the store rejects the calls for Alice's aggregate\<close>
  "ex_env_failing =
     \<lparr>guild_known = (\<lambda>g. True), user_found = (\<lambda>u. True),
      member_voice = (\<lambda>g u. Some \<lparr>v_channelId = None, v_streaming = False\<rparr>),
      store_ready = True, find_rejects = False, store_rejects = (\<lambda>k. k = ex_key)\<rparr>"

definition stream_key :: "active_stream \<Rightarrow> key" where
  "stream_key s = (as_userId s, as_guildId s)"

definition keeps_open :: "recovery_env \<Rightarrow> active_stream \<Rightarrow> bool" where
  \<comment> \<open>the one path through the loop body that does not call \<open>markStreamAsInterrupted\<close>\<close>
  "keeps_open env s =
     (guild_known env (as_guildId s) \<and> user_found env (as_userId s) \<and> isCurrentlyStreaming env s)"

section \<open>Saving a document\<close>

text \<open>
  Saving a document that was just loaded stores it as it is now; saving a document whose
  only change to the streams is an appended element appends that element to the streams
  the collection holds, whatever another instance has stored in the meantime.
\<close>

lemma pick_fresh [simp]: "pick b c b = c" by (simp add: pick_def)

lemma pick_unchanged [simp]: "pick b b s = s" by (simp add: pick_def)

lemma merge_stream_fresh [simp]: "merge_stream b c b = c"
  by (simp add: merge_stream_def)

lemma merge_stream_unchanged [simp]: "merge_stream b b s = s"
  by (simp add: merge_stream_def)

lemma merge_streams_fresh: "length bs \<le> length cs \<Longrightarrow> merge_streams bs cs bs = cs"
proof (induction bs arbitrary: cs)
  case Nil
  then show ?case by simp
next
  case (Cons b bs)
  then show ?case by (cases cs) auto
qed


lemma save_delta_fresh:
  "length (streams a) \<le> length (streams a') \<Longrightarrow> save_delta a a' a = a'"
  by (simp add: save_delta_def merge_streams_fresh)

lemma findOne_save_fresh:
  "findOne k st = Some a \<Longrightarrow> length (streams a) \<le> length (streams a') \<Longrightarrow>
   findOne k (save k a a' st) = Some a'"
  by (simp add: findOne_def save_def save_delta_fresh update_conv')

lemma findOne_save_other:
  "k' \<noteq> k \<Longrightarrow> findOne k' (save k b d st) = findOne k' st"
  by (simp add: findOne_def save_def update_conv' split: option.splits)

section \<open>Closing a session\<close>

lemma endStream_closes:
  assumes "streams a \<noteq> []" "endTime (last (streams a)) = None"
  shows "streams (endStream now cur a) =
           butlast (streams a) @ [(last (streams a))\<lparr>endTime := Some now,
             duration := minutes_between (startTime (last (streams a))) now\<rparr>]"
  using assms by (simp add: endStream_def Let_def)

lemma length_streams_endStream [simp]: "length (streams (endStream now cur a)) = length (streams a)"
  by (cases "streams a = []") (auto simp: endStream_def Let_def)

lemma endStreamSession_open:
  assumes "findOne k st = Some a" "streams a \<noteq> []" "endTime (last (streams a)) = None"
  shows "endStreamSession now cur k st =
           (save k a (endStream now cur a) st,
            Some (endStream now cur a, details_of (last (streams (endStream now cur a)))))"
    and "findOne k (save k a (endStream now cur a) st) = Some (endStream now cur a)"
  using assms by (simp_all add: endStreamSession_def Let_def findOne_save_fresh)

text \<open>
  Claim C6, as amended. When \<open>endStreamSession\<close> closes a session that started at
  \<open>T0\<close> at close time \<open>T1\<close>, the session is stored with end time \<open>T1\<close> and
  duration \<open>\<lfloor>(T1 - T0) / 60000\<rfloor>\<close>: the elapsed milliseconds divided by 60000 and
  rounded down to whole minutes (\<^verbatim>\<open>Math.floor\<close>), not to the nearest minute. The
  same value is returned in the session details.
\<close>

theorem endStreamSession_duration_floor:
  assumes "findOne k st = Some a" and "streams a \<noteq> []"
    and "endTime (last (streams a)) = None" and "startTime (last (streams a)) = T0"
  shows "\<exists>st' a' sd. endStreamSession T1 cur k st = (st', Some (a', sd)) \<and>
           findOne k st' = Some a' \<and> streams a' \<noteq> [] \<and>
           endTime (last (streams a')) = Some T1 \<and>
           duration (last (streams a')) = (T1 - T0) div 60000 \<and>
           sd_duration sd = (T1 - T0) div 60000"
proof -
  let ?a' = "endStream T1 cur a"
  have s: "streams ?a' = butlast (streams a) @ [(last (streams a))\<lparr>endTime := Some T1,
             duration := minutes_between T0 T1\<rparr>]"
    using endStream_closes [OF assms(2,3)] assms(4) by simp
  have "endTime (last (streams ?a')) = Some T1"
    and "duration (last (streams ?a')) = (T1 - T0) div 60000"
    and "streams ?a' \<noteq> []"
    by (simp_all add: s minutes_between_def)
  then show ?thesis
    using endStreamSession_open [OF assms(1,2,3), of T1 cur]
    by (simp add: details_of_def)
qed

lemma ex_open_store_eq:
  "ex_open_store = [(ex_key, startStream 0 ex_periods ''c1'' ''General'' (new_activity 0 ex_periods ''alice'' ''guild''))]"
  by (simp add: ex_open_store_def startStreamSession_def getOrCreateStreamActivity_def findOne_def
      endStreamSession_def new_activity_def Let_def save_def save_delta_def startStream_def)

text \<open>A session opened at 0 ms and closed at 90000 ms is recorded with 1 minute.\<close>

theorem endStreamSession_duration_floor_witness:
  "\<exists>st' a' sd. endStreamSession 90000 ex_periods ex_key ex_open_store = (st', Some (a', sd)) \<and>
     findOne ex_key st' = Some a' \<and> streams a' \<noteq> [] \<and>
     endTime (last (streams a')) = Some 90000 \<and>
     duration (last (streams a')) = 1 \<and> sd_duration sd = 1"
proof -
  let ?a = "startStream 0 ex_periods ''c1'' ''General'' (new_activity 0 ex_periods ''alice'' ''guild'')"
  have 1: "findOne ex_key ex_open_store = Some ?a"
    by (simp add: ex_open_store_eq findOne_def)
  have 2: "streams ?a \<noteq> []" "endTime (last (streams ?a)) = None" "startTime (last (streams ?a)) = 0"
    by (simp_all add: startStream_def new_stream_def new_activity_def)
  show ?thesis
    using endStreamSession_duration_floor [OF 1 2, of 90000 ex_periods] by simp
qed

text \<open>
  Claim C6 as stated fails: 90000 ms is a minute and a half, which
  \<^verbatim>\<open>Math.round\<close> takes to 2 and the code records as 1.
\<close>

theorem endStreamSession_duration_round_counterexample:
  "map_option (\<lambda>r. sd_duration (snd r)) (snd (endStreamSession 90000 ex_periods ex_key ex_open_store))
     \<noteq> Some (js_round_div (90000 - 0) 60000) \<and>
   map_option (\<lambda>r. sd_duration (snd r)) (snd (endStreamSession 90000 ex_periods ex_key ex_open_store))
     = Some 1 \<and>
   js_round_div (90000 - 0) 60000 = 2"
  by (simp add: ex_open_store_eq endStreamSession_def findOne_def startStream_def new_activity_def
      new_stream_def endStream_def Let_def minutes_between_def details_of_def js_round_div_def)

section \<open>At most one open session\<close>


lemma streams_save_delta [simp]:
  "streams (save_delta base doc stored) = merge_streams (streams base) (streams doc) (streams stored)"
  by (simp add: save_delta_def)






lemma streams_interruptLatest:
  "streams (interruptLatest now a) = butlast (streams a) @
     [(last (streams a))\<lparr>interrupted := True, endTime := Some now,
        duration := minutes_between (startTime (last (streams a))) now\<rparr>]"
  by (simp add: interruptLatest_def Let_def)

lemma markStreamAsInterrupted_open:
  assumes "findOne k st = Some a" "streams a \<noteq> []" "endTime (last (streams a)) = None"
  shows "markStreamAsInterrupted now k st =
           (save k a (interruptLatest now a) st,
            Some (interruptLatest now a, details_of (last (streams (interruptLatest now a)))))"
    and "findOne k (save k a (interruptLatest now a) st) = Some (interruptLatest now a)"
  using assms
  by (simp_all add: markStreamAsInterrupted_def Let_def findOne_save_fresh streams_interruptLatest)













section \<open>Rolling totals\<close>

lemma endStream_totals:
  assumes "streams a \<noteq> []" "endTime (last (streams a)) = None"
  shows "currentDailyTotal (endStream now cur a) =
           Some (add_session (minutes_between (startTime (last (streams a))) now)
                  (roll_total (p_day cur) (init_total (p_day cur) (currentDailyTotal a))))"
    and "currentWeeklyTotal (endStream now cur a) =
           Some (add_session (minutes_between (startTime (last (streams a))) now)
                  (roll_total (p_week cur) (init_total (p_week cur) (currentWeeklyTotal a))))"
    and "currentMonthlyTotal (endStream now cur a) =
           Some (add_session (minutes_between (startTime (last (streams a))) now)
                  (roll_total (p_month cur) (init_total (p_month cur) (currentMonthlyTotal a))))"
  using assms by (simp_all add: endStream_def Let_def)

lemma rolled_window:
  "periodKey w \<noteq> tag \<Longrightarrow>
   add_session d (roll_total tag (init_total tag (Some w))) =
     \<lparr>periodKey = tag, totalMinutes = d, streamCount = 1\<rparr>"
  by (simp add: add_session_def roll_total_def init_total_def fresh_total_def)

text \<open>
  Claim C4. When \<open>endStreamSession\<close> closes a session and the key stored in a rolling
  total differs from the tag of the close time, that total ends as
  \<open>{key: new tag, totalMinutes: duration of the closed session, streamCount: 1}\<close>: it is
  reset to zero before the session is added, and nothing of the stale value is kept.
  This holds for the daily, the weekly and the monthly total alike.
\<close>

theorem endStreamSession_rolls_window:
  assumes "findOne k st = Some a" and "streams a \<noteq> []" and "endTime (last (streams a)) = None"
  shows "\<exists>st' a' sd. endStreamSession now cur k st = (st', Some (a', sd)) \<and>
           findOne k st' = Some a' \<and>
           sd_duration sd = duration (last (streams a')) \<and>
           (\<forall>w. currentDailyTotal a = Some w \<and> periodKey w \<noteq> p_day cur \<longrightarrow>
              currentDailyTotal a' =
                Some \<lparr>periodKey = p_day cur, totalMinutes = sd_duration sd, streamCount = 1\<rparr>) \<and>
           (\<forall>w. currentWeeklyTotal a = Some w \<and> periodKey w \<noteq> p_week cur \<longrightarrow>
              currentWeeklyTotal a' =
                Some \<lparr>periodKey = p_week cur, totalMinutes = sd_duration sd, streamCount = 1\<rparr>) \<and>
           (\<forall>w. currentMonthlyTotal a = Some w \<and> periodKey w \<noteq> p_month cur \<longrightarrow>
              currentMonthlyTotal a' =
                Some \<lparr>periodKey = p_month cur, totalMinutes = sd_duration sd, streamCount = 1\<rparr>)"
proof -
  let ?a' = "endStream now cur a"
  let ?sd = "details_of (last (streams ?a'))"
  have d: "sd_duration ?sd = minutes_between (startTime (last (streams a))) now"
    by (simp add: details_of_def endStream_closes [OF assms(2,3)])
  have "sd_duration ?sd = duration (last (streams ?a'))"
    by (simp add: details_of_def)
  moreover have "\<forall>w. currentDailyTotal a = Some w \<and> periodKey w \<noteq> p_day cur \<longrightarrow>
      currentDailyTotal ?a' =
        Some \<lparr>periodKey = p_day cur, totalMinutes = sd_duration ?sd, streamCount = 1\<rparr>"
    by (simp add: endStream_totals [OF assms(2,3)] d rolled_window)
  moreover have "\<forall>w. currentWeeklyTotal a = Some w \<and> periodKey w \<noteq> p_week cur \<longrightarrow>
      currentWeeklyTotal ?a' =
        Some \<lparr>periodKey = p_week cur, totalMinutes = sd_duration ?sd, streamCount = 1\<rparr>"
    by (simp add: endStream_totals [OF assms(2,3)] d rolled_window)
  moreover have "\<forall>w. currentMonthlyTotal a = Some w \<and> periodKey w \<noteq> p_month cur \<longrightarrow>
      currentMonthlyTotal ?a' =
        Some \<lparr>periodKey = p_month cur, totalMinutes = sd_duration ?sd, streamCount = 1\<rparr>"
    by (simp add: endStream_totals [OF assms(2,3)] d rolled_window)
  ultimately show ?thesis
    using endStreamSession_open [OF assms, of now cur] by blast
qed

lemma ex_stale_found:
  "findOne ex_key ex_stale_store = Some (snd (hd ex_stale_store))"
  by (simp add: ex_stale_store_def findOne_def)

text \<open>
  The daily total is keyed 2025-04-29 with 50 minutes in 3 sessions; a session of 30
  minutes closes on 2025-04-30.
\<close>

theorem endStreamSession_rolls_window_witness:
  "\<exists>st' a' sd. endStreamSession 1800000 ex_periods ex_key ex_stale_store = (st', Some (a', sd)) \<and>
     findOne ex_key st' = Some a' \<and> sd_duration sd = 30 \<and>
     currentDailyTotal a' = Some \<lparr>periodKey = ''2025-04-30'', totalMinutes = 30, streamCount = 1\<rparr>"
proof -
  let ?a = "snd (hd ex_stale_store)"
  have 2: "streams ?a \<noteq> []" "endTime (last (streams ?a)) = None"
    by (simp_all add: ex_stale_store_def startStream_def new_stream_def new_activity_def)
  have 3: "currentDailyTotal ?a = Some \<lparr>periodKey = ''2025-04-29'', totalMinutes = 50, streamCount = 3\<rparr>"
    "p_day ex_periods = ''2025-04-30''"
    by (simp_all add: ex_stale_store_def startStream_def ex_periods_def)
  have 4: "startTime (last (streams ?a)) = 0"
    by (simp add: ex_stale_store_def startStream_def new_stream_def new_activity_def)
  from endStreamSession_rolls_window [OF ex_stale_found 2, of 1800000 ex_periods]
  obtain st' a' sd where r:
    "endStreamSession 1800000 ex_periods ex_key ex_stale_store = (st', Some (a', sd))"
    "findOne ex_key st' = Some a'"
    "currentDailyTotal a' =
       Some \<lparr>periodKey = ''2025-04-30'', totalMinutes = sd_duration sd, streamCount = 1\<rparr>"
    using 3 by auto
  have "sd = details_of (last (streams (endStream 1800000 ex_periods ?a)))"
    using r(1) endStreamSession_open(1) [OF ex_stale_found 2, of 1800000 ex_periods] by auto
  then have "sd_duration sd = 30"
    by (simp add: endStream_closes [OF 2] details_of_def 4 minutes_between_def)
  with r show ?thesis by simp
qed

text \<open>
  Claim C3. A \<open>markStreamAsInterrupted\<close> call that closes an open session leaves
  \<open>totalStreamTime\<close> and the \<open>totalMinutes\<close> of the daily, weekly and monthly totals
  unchanged, and adds exactly 1 to \<open>totalStreams\<close> and to the \<open>streamCount\<close> of each
  of the three totals. (The totals are read through \<open>map_option\<close> because the code
  guards each of them with a truthiness test; the schema gives every document all
  three.)
\<close>

theorem markStreamAsInterrupted_counts_only:
  assumes "findOne k st = Some a" and "streams a \<noteq> []" and "endTime (last (streams a)) = None"
  shows "\<exists>st' a' sd. markStreamAsInterrupted now k st = (st', Some (a', sd)) \<and>
           findOne k st' = Some a' \<and>
           interrupted (last (streams a')) \<and> endTime (last (streams a')) = Some now \<and>
           totalStreamTime a' = totalStreamTime a \<and>
           map_option totalMinutes (currentDailyTotal a') = map_option totalMinutes (currentDailyTotal a) \<and>
           map_option totalMinutes (currentWeeklyTotal a') = map_option totalMinutes (currentWeeklyTotal a) \<and>
           map_option totalMinutes (currentMonthlyTotal a') = map_option totalMinutes (currentMonthlyTotal a) \<and>
           totalStreams a' = totalStreams a + 1 \<and>
           map_option streamCount (currentDailyTotal a') =
             map_option (\<lambda>w. streamCount w + 1) (currentDailyTotal a) \<and>
           map_option streamCount (currentWeeklyTotal a') =
             map_option (\<lambda>w. streamCount w + 1) (currentWeeklyTotal a) \<and>
           map_option streamCount (currentMonthlyTotal a') =
             map_option (\<lambda>w. streamCount w + 1) (currentMonthlyTotal a)"
proof -
  let ?a' = "interruptLatest now a"
  have "interrupted (last (streams ?a'))" "endTime (last (streams ?a')) = Some now"
    by (simp_all add: streams_interruptLatest)
  moreover have "totalStreamTime ?a' = totalStreamTime a" "totalStreams ?a' = totalStreams a + 1"
    by (simp_all add: interruptLatest_def Let_def)
  moreover have
    "map_option totalMinutes (currentDailyTotal ?a') = map_option totalMinutes (currentDailyTotal a)"
    "map_option totalMinutes (currentWeeklyTotal ?a') = map_option totalMinutes (currentWeeklyTotal a)"
    "map_option totalMinutes (currentMonthlyTotal ?a') = map_option totalMinutes (currentMonthlyTotal a)"
    by (simp_all add: interruptLatest_def Let_def bump_count_def split: option.splits)
  moreover have
    "map_option streamCount (currentDailyTotal ?a') =
       map_option (\<lambda>w. streamCount w + 1) (currentDailyTotal a)"
    "map_option streamCount (currentWeeklyTotal ?a') =
       map_option (\<lambda>w. streamCount w + 1) (currentWeeklyTotal a)"
    "map_option streamCount (currentMonthlyTotal ?a') =
       map_option (\<lambda>w. streamCount w + 1) (currentMonthlyTotal a)"
    by (simp_all add: interruptLatest_def Let_def bump_count_def split: option.splits)
  ultimately show ?thesis
    using markStreamAsInterrupted_open [OF assms, of now] by blast
qed

text \<open>The same stored aggregate, interrupted instead of stopped.\<close>

theorem markStreamAsInterrupted_counts_only_witness:
  "\<exists>st' a' sd. markStreamAsInterrupted 1800000 ex_key ex_stale_store = (st', Some (a', sd)) \<and>
     findOne ex_key st' = Some a' \<and> totalStreamTime a' = 0 \<and> totalStreams a' = 1 \<and>
     currentDailyTotal a' = Some \<lparr>periodKey = ''2025-04-29'', totalMinutes = 50, streamCount = 4\<rparr> \<and>
     currentWeeklyTotal a' = Some \<lparr>periodKey = ''2025-18'', totalMinutes = 0, streamCount = 1\<rparr> \<and>
     currentMonthlyTotal a' = Some \<lparr>periodKey = ''2025-04'', totalMinutes = 0, streamCount = 1\<rparr>"
proof -
  let ?a = "snd (hd ex_stale_store)"
  have 2: "streams ?a \<noteq> []" "endTime (last (streams ?a)) = None"
    by (simp_all add: ex_stale_store_def startStream_def new_stream_def new_activity_def)
  from markStreamAsInterrupted_counts_only [OF ex_stale_found 2, of 1800000]
  obtain st' a' sd where r:
    "markStreamAsInterrupted 1800000 ex_key ex_stale_store = (st', Some (a', sd))"
    "findOne ex_key st' = Some a'"
    "totalStreamTime a' = totalStreamTime ?a" "totalStreams a' = totalStreams ?a + 1"
    by blast
  have "a' = interruptLatest 1800000 ?a"
    using r(1) markStreamAsInterrupted_open(1) [OF ex_stale_found 2, of 1800000] by auto
  then have "currentDailyTotal a' = Some \<lparr>periodKey = ''2025-04-29'', totalMinutes = 50, streamCount = 4\<rparr>"
    "currentWeeklyTotal a' = Some \<lparr>periodKey = ''2025-18'', totalMinutes = 0, streamCount = 1\<rparr>"
    "currentMonthlyTotal a' = Some \<lparr>periodKey = ''2025-04'', totalMinutes = 0, streamCount = 1\<rparr>"
    by (simp_all add: interruptLatest_def Let_def bump_count_def ex_stale_store_def startStream_def
        new_activity_def total_missing_def fresh_total_def ex_periods_def)
  moreover have "totalStreamTime ?a = 0" "totalStreams ?a = 0"
    by (simp_all add: ex_stale_store_def startStream_def new_activity_def)
  ultimately show ?thesis using r by simp
qed

section \<open>The leaderboard is the head of the sorted positive users\<close>

lemma set_js_slice0: "set (js_slice0 n xs) \<subseteq> set xs"
  by (auto simp: js_slice0_def dest: in_set_takeD)

lemma sorted_js_slice0: "sorted (map f xs) \<Longrightarrow> sorted (map f (js_slice0 n xs))"
  by (simp add: js_slice0_def flip: take_map)

lemma js_slice0_nonneg: "0 \<le> n \<Longrightarrow> js_slice0 n xs = take (nat n) xs"
  by (simp add: js_slice0_def)

lemma leaderboard_eq:
  "getServerStreamLeaderboard gid period limit st =
     js_slice0 limit
       (sort_key (\<lambda>e. - streamTime e)
         (filter (\<lambda>e. streamTime e > 0) (map (leaderboard_row period) (find_guild gid st))))"
  by (simp add: getServerStreamLeaderboard_def Let_def js_slice0_def)

lemma leaderboard_subset:
  "set (getServerStreamLeaderboard gid period limit st) \<subseteq>
     {e \<in> leaderboard_row period ` set (find_guild gid st). streamTime e > 0}"
  using set_js_slice0 [of limit "sort_key (\<lambda>e. - streamTime e)
      (filter (\<lambda>e. streamTime e > 0) (map (leaderboard_row period) (find_guild gid st)))"]
  by (auto simp: leaderboard_eq)

lemma leaderboard_sorted:
  "sorted (map (\<lambda>e. - streamTime e) (getServerStreamLeaderboard gid period limit st))"
  by (simp add: leaderboard_eq sorted_js_slice0)

lemma find_guild_set:
  assumes "distinct (map fst st)"
  shows "set (find_guild gid st) = {(uid, a). findOne (uid, gid) st = Some a}"
proof -
  have "\<And>k a. (k, a) \<in> set st \<longleftrightarrow> map_of st k = Some a"
    using assms by (auto dest: map_of_SomeD)
  then show ?thesis
    by (force simp: find_guild_def findOne_def image_iff)
qed

lemma leaderboard_row_fields:
  "lb_userId (leaderboard_row period (uid, a)) = uid \<and>
   lb_username (leaderboard_row period (uid, a)) = username a \<and>
   streamTime (leaderboard_row period (uid, a)) =
     (if period = ''day'' then (case currentDailyTotal a of None \<Rightarrow> 0 | Some w \<Rightarrow> totalMinutes w)
      else if period = ''week'' then (case currentWeeklyTotal a of None \<Rightarrow> 0 | Some w \<Rightarrow> totalMinutes w)
      else if period = ''month'' then (case currentMonthlyTotal a of None \<Rightarrow> 0 | Some w \<Rightarrow> totalMinutes w)
      else totalStreamTime a) \<and>
   lb_streamCount (leaderboard_row period (uid, a)) =
     (if period = ''day'' then (case currentDailyTotal a of None \<Rightarrow> 0 | Some w \<Rightarrow> streamCount w)
      else if period = ''week'' then (case currentWeeklyTotal a of None \<Rightarrow> 0 | Some w \<Rightarrow> streamCount w)
      else if period = ''month'' then (case currentMonthlyTotal a of None \<Rightarrow> 0 | Some w \<Rightarrow> streamCount w)
      else totalStreams a)"
  by (simp add: leaderboard_row_def period_stats_def split: option.splits)

lemma leaderboard_absent:
  assumes "distinct (map fst st)" "findOne (uid, gid) st = Some a"
    "streamTime (leaderboard_row period (uid, a)) \<le> 0"
  shows "uid \<notin> lb_userId ` set (getServerStreamLeaderboard gid period limit st)"
proof
  assume "uid \<in> lb_userId ` set (getServerStreamLeaderboard gid period limit st)"
  then obtain e where e: "e \<in> set (getServerStreamLeaderboard gid period limit st)" "lb_userId e = uid"
    by auto
  with leaderboard_subset obtain u where
    u: "u \<in> set (find_guild gid st)" "e = leaderboard_row period u" "streamTime e > 0"
    by blast
  obtain v b where vb: "u = (v, b)" by (cases u)
  then have "v = uid" using u(2) e(2) by (simp add: leaderboard_row_def)
  then have "findOne (uid, gid) st = Some b"
    using u(1) vb find_guild_set [OF assms(1), of gid] by auto
  then have "b = a" using assms(2) by simp
  then show False using u(2,3) vb \<open>v = uid\<close> assms(3) by simp
qed

text \<open>
  Claim C10. The rows of the leaderboard are the users of the guild, one per stored
  aggregate, each with the minutes and the stream count of the selected period: the
  daily, weekly or monthly total for \<open>day\<close>, \<open>week\<close> and \<open>month\<close>, and the lifetime
  totals for any other period. \<open>getServerStreamLeaderboard\<close> returns exactly the rows
  whose stream time is strictly positive, put in descending order of stream time by a
  stable sort, and cut by \<^verbatim>\<open>slice(0, limit)\<close>: for a limit that is not negative, the
  first \<open>limit\<close> entries of that sorted list. So every entry has a positive stream time,
  the entries are in descending order, and a user whose minutes for the period are zero,
  as they are when every one of the user's sessions was interrupted, is on no
  leaderboard, whatever the period, the limit and the user's stream count.
\<close>

theorem leaderboard_head_of_sorted_positive:
  assumes "distinct (map fst st)"
  shows "getServerStreamLeaderboard gid period limit st =
           js_slice0 limit
             (sort_key (\<lambda>e. - streamTime e)
               (filter (\<lambda>e. streamTime e > 0) (map (leaderboard_row period) (find_guild gid st)))) \<and>
         (0 \<le> limit \<longrightarrow>
            getServerStreamLeaderboard gid period limit st =
              take (nat limit)
                (sort_key (\<lambda>e. - streamTime e)
                  (filter (\<lambda>e. streamTime e > 0) (map (leaderboard_row period) (find_guild gid st))))) \<and>
         set (find_guild gid st) = {(uid, a). findOne (uid, gid) st = Some a} \<and>
         (\<forall>uid a.
            lb_userId (leaderboard_row period (uid, a)) = uid \<and>
            lb_username (leaderboard_row period (uid, a)) = username a \<and>
            streamTime (leaderboard_row period (uid, a)) =
              (if period = ''day'' then
                 (case currentDailyTotal a of None \<Rightarrow> 0 | Some w \<Rightarrow> totalMinutes w)
               else if period = ''week'' then
                 (case currentWeeklyTotal a of None \<Rightarrow> 0 | Some w \<Rightarrow> totalMinutes w)
               else if period = ''month'' then
                 (case currentMonthlyTotal a of None \<Rightarrow> 0 | Some w \<Rightarrow> totalMinutes w)
               else totalStreamTime a) \<and>
            lb_streamCount (leaderboard_row period (uid, a)) =
              (if period = ''day'' then
                 (case currentDailyTotal a of None \<Rightarrow> 0 | Some w \<Rightarrow> streamCount w)
               else if period = ''week'' then
                 (case currentWeeklyTotal a of None \<Rightarrow> 0 | Some w \<Rightarrow> streamCount w)
               else if period = ''month'' then
                 (case currentMonthlyTotal a of None \<Rightarrow> 0 | Some w \<Rightarrow> streamCount w)
               else totalStreams a)) \<and>
         (\<forall>e \<in> set (getServerStreamLeaderboard gid period limit st). streamTime e > 0) \<and>
         sorted (map (\<lambda>e. - streamTime e) (getServerStreamLeaderboard gid period limit st)) \<and>
         (\<forall>uid a. findOne (uid, gid) st = Some a \<and>
                  streamTime (leaderboard_row period (uid, a)) \<le> 0 \<longrightarrow>
            uid \<notin> lb_userId ` set (getServerStreamLeaderboard gid period limit st))"
proof (intro conjI)
  show "getServerStreamLeaderboard gid period limit st =
          js_slice0 limit
            (sort_key (\<lambda>e. - streamTime e)
              (filter (\<lambda>e. streamTime e > 0) (map (leaderboard_row period) (find_guild gid st))))"
    by (rule leaderboard_eq)
  show "0 \<le> limit \<longrightarrow>
          getServerStreamLeaderboard gid period limit st =
            take (nat limit)
              (sort_key (\<lambda>e. - streamTime e)
                (filter (\<lambda>e. streamTime e > 0) (map (leaderboard_row period) (find_guild gid st))))"
    by (simp add: leaderboard_eq js_slice0_nonneg)
  show "set (find_guild gid st) = {(uid, a). findOne (uid, gid) st = Some a}"
    using assms by (rule find_guild_set)
  show "\<forall>e \<in> set (getServerStreamLeaderboard gid period limit st). streamTime e > 0"
    using leaderboard_subset by blast
  show "sorted (map (\<lambda>e. - streamTime e) (getServerStreamLeaderboard gid period limit st))"
    by (rule leaderboard_sorted)
  show "\<forall>uid a. findOne (uid, gid) st = Some a \<and>
                  streamTime (leaderboard_row period (uid, a)) \<le> 0 \<longrightarrow>
            uid \<notin> lb_userId ` set (getServerStreamLeaderboard gid period limit st)"
    using assms leaderboard_absent by blast
qed (use leaderboard_row_fields in blast)

text \<open>
  Four users of guild g1 and one of guild g2. Over all time carol (35 minutes) is ahead
  of dave (20) and bob (10); for the day 2025-04-30 carol has 5 minutes and is third.
  With limit 2 the third user is cut. Alice, whose only session was interrupted, has a
  stream count of 1 and no minutes, and is on neither board.
\<close>

theorem leaderboard_head_of_sorted_positive_witness:
  "distinct (map fst ex_board_store) \<and>
   ex_board ''all'' 2 = [(''u3'', 35), (''u4'', 20)] \<and>
   ex_board ''all'' 10 = [(''u3'', 35), (''u4'', 20), (''u2'', 10)] \<and>
   ex_board ''day'' 2 = [(''u4'', 20), (''u2'', 10)] \<and>
   ex_board ''day'' 10 = [(''u4'', 20), (''u2'', 10), (''u3'', 5)] \<and>
   ex_board ''week'' 1 = [(''u3'', 35)] \<and>
   ex_board ''month'' 0 = [] \<and>
   map_option (\<lambda>a. (totalStreams a, totalStreamTime a)) (findOne (''u1'', ''g1'') ex_board_store) =
     Some (1, 0) \<and>
   ''u1'' \<notin> lb_userId ` set (getServerStreamLeaderboard ''g1'' ''all'' 10 ex_board_store)"
proof -
  have d: "distinct (map fst ex_board_store)" by code_simp
  have t: "\<And>period limit.
      (0 \<le> limit \<longrightarrow>
         getServerStreamLeaderboard ''g1'' period limit ex_board_store =
           take (nat limit)
             (sort_key (\<lambda>e. - streamTime e)
               (filter (\<lambda>e. streamTime e > 0)
                 (map (leaderboard_row period) (find_guild ''g1'' ex_board_store))))) \<and>
      (\<forall>uid a. streamTime (leaderboard_row period (uid, a)) =
         (if period = ''day'' then
            (case currentDailyTotal a of None \<Rightarrow> 0 | Some w \<Rightarrow> totalMinutes w)
          else if period = ''week'' then
            (case currentWeeklyTotal a of None \<Rightarrow> 0 | Some w \<Rightarrow> totalMinutes w)
          else if period = ''month'' then
            (case currentMonthlyTotal a of None \<Rightarrow> 0 | Some w \<Rightarrow> totalMinutes w)
          else totalStreamTime a)) \<and>
      (\<forall>uid a. findOne (uid, ''g1'') ex_board_store = Some a \<and>
                streamTime (leaderboard_row period (uid, a)) \<le> 0 \<longrightarrow>
         uid \<notin> lb_userId ` set (getServerStreamLeaderboard ''g1'' period limit ex_board_store))"
    using leaderboard_head_of_sorted_positive [OF d] by blast
  note head = t [THEN conjunct1]
  note row = t [THEN conjunct2, THEN conjunct1]
  note absent = t [THEN conjunct2, THEN conjunct2]
  let ?rows = "\<lambda>period. sort_key (\<lambda>e. - streamTime e)
      (filter (\<lambda>e. streamTime e > 0) (map (leaderboard_row period) (find_guild ''g1'' ex_board_store)))"
  let ?show = "map (\<lambda>e. (lb_userId e, streamTime e))"
  have r: "?show (?rows ''all'') = [(''u3'', 35), (''u4'', 20), (''u2'', 10)]"
    "?show (?rows ''day'') = [(''u4'', 20), (''u2'', 10), (''u3'', 5)]"
    "?show (?rows ''week'') = [(''u3'', 35), (''u4'', 20), (''u2'', 10)]"
    "?show (?rows ''month'') = [(''u3'', 35), (''u4'', 20), (''u2'', 10)]"
    by code_simp+
  have e: "ex_board period limit = take (nat limit) (?show (?rows period))" if "0 \<le> limit"
    for period limit
  proof -
    have "getServerStreamLeaderboard ''g1'' period limit ex_board_store = take (nat limit) (?rows period)"
      using head [of limit period] that by (rule mp)
    then show ?thesis by (simp only: ex_board_def take_map)
  qed
  have b1: "ex_board ''all'' 2 = [(''u3'', 35), (''u4'', 20)]"
    using e [of 2 "''all''"] by (simp only: r) simp
  have b2: "ex_board ''all'' 10 = [(''u3'', 35), (''u4'', 20), (''u2'', 10)]"
    using e [of 10 "''all''"] by (simp only: r) simp
  have b3: "ex_board ''day'' 2 = [(''u4'', 20), (''u2'', 10)]"
    using e [of 2 "''day''"] by (simp only: r) simp
  have b4: "ex_board ''day'' 10 = [(''u4'', 20), (''u2'', 10), (''u3'', 5)]"
    using e [of 10 "''day''"] by (simp only: r) simp
  have b5: "ex_board ''week'' 1 = [(''u3'', 35)]"
    using e [of 1 "''week''"] by (simp only: r) simp
  have b6: "ex_board ''month'' 0 = []"
    using e [of 0 "''month''"] by (simp only: r) simp
  have s: "map_option (\<lambda>a. (totalStreams a, totalStreamTime a)) (findOne (''u1'', ''g1'') ex_board_store) =
      Some (1, 0)"
    by code_simp
  then obtain a where a: "findOne (''u1'', ''g1'') ex_board_store = Some a" "totalStreamTime a = 0"
    by auto
  have "streamTime (leaderboard_row ''all'' (''u1'', a)) = totalStreamTime a"
    using row [of "''all''", rule_format, of "''u1''" a] by simp
  then have "streamTime (leaderboard_row ''all'' (''u1'', a)) \<le> 0" using a(2) by simp
  with a(1) have n: "''u1'' \<notin> lb_userId ` set (getServerStreamLeaderboard ''g1'' ''all'' 10 ex_board_store)"
    using absent [of "''all''" 10] by blast
  from d b1 b2 b3 b4 b5 b6 s n show ?thesis by blast
qed

section \<open>Durations within the report period\<close>

lemma if_less_max: "(if (s::int) > ws then s else ws) = max s ws"
  by simp

lemma if_less_min: "(if (e::int) < we then e else we) = min e we"
  by simp

lemma durationSec_processed_open:
  "endTime x = None \<Longrightarrow>
   durationSec ws we (processed uid un x) = clipped_duration_spec ws we (startTime x) (endTime x)"
  by (simp add: durationSec_def processed_def clipped_duration_spec_def Let_def if_less_max
      del: max_less_iff_conj)

lemma durationSec_processed_recorded:
  "endTime x \<noteq> None \<Longrightarrow> duration x > 0 \<Longrightarrow>
   durationSec ws we (processed uid un x) = duration x * 60"
  by (cases "endTime x") (simp_all add: durationSec_def processed_def)

lemma durationSec_processed_unrecorded:
  "endTime x \<noteq> None \<Longrightarrow> duration x \<le> 0 \<Longrightarrow>
   durationSec ws we (processed uid un x) = clipped_duration_spec ws we (startTime x) (endTime x)"
  by (cases "endTime x")
    (simp_all add: durationSec_def processed_def clipped_duration_spec_def Let_def if_less_max
      if_less_min)

text \<open>
  Claim C2, as amended. For every session and every report window, the duration the
  aggregator computes for the session is the clipped duration
  \<open>max(0, round((min(end ?? windowEnd, windowEnd) - max(start, windowStart)) / 1000))\<close>
  when the session is open, and when it is closed with a recorded duration that is not
  positive; for a closed session with a positive recorded duration it is that duration
  in minutes times 60, whatever the window. So a session from 10:50 to 11:10, recorded
  with 20 minutes, counts 1200 seconds in the window from 10:00 to 11:00 and 1200
  seconds in the window from 11:00 to 12:00.
\<close>

theorem durationSec_by_case:
  "(endTime x = None \<longrightarrow>
      durationSec ws we (processed uid un x) = clipped_duration_spec ws we (startTime x) (endTime x)) \<and>
   (endTime x \<noteq> None \<and> duration x > 0 \<longrightarrow>
      durationSec ws we (processed uid un x) = duration x * 60) \<and>
   (endTime x \<noteq> None \<and> duration x \<le> 0 \<longrightarrow>
      durationSec ws we (processed uid un x) = clipped_duration_spec ws we (startTime x) (endTime x))"
  using durationSec_processed_open durationSec_processed_recorded durationSec_processed_unrecorded
  by blast

text \<open>
  The closed session from 10:50 to 11:10 in both windows, and the same session while it
  is still open: 600 seconds in the window from 10:00 to 11:00.
\<close>

theorem durationSec_by_case_witness:
  "durationSec 36000000 39600000 ex_session = 1200 \<and>
   durationSec 39600000 43200000 ex_session = 1200 \<and>
   durationSec 36000000 39600000 ex_open_session = 600"
proof -
  let ?a = "startStream 39000000 ex_periods ''c1'' ''General'' (new_activity 0 ex_periods ''alice'' ''guild'')"
  let ?x = "last (streams (endStream 40200000 ex_periods ?a))"
  let ?y = "last (streams ?a)"
  have x: "endTime ?x \<noteq> None \<and> duration ?x > 0" "duration ?x * 60 = 1200" by code_simp+
  have y: "endTime ?y = None"
    "clipped_duration_spec 36000000 39600000 (startTime ?y) (endTime ?y) = 600" by code_simp+
  show ?thesis
    using durationSec_by_case [of ?x 36000000 39600000 "''u1''" "''alice''"]
      durationSec_by_case [of ?x 39600000 43200000 "''u1''" "''alice''"]
      durationSec_by_case [of ?y 36000000 39600000 "''u1''" "''alice''"] x y
    by (simp add: ex_session_def ex_open_session_def)
qed

text \<open>
  Claim C2 as stated fails for that session: the claimed formula gives 600 seconds in
  the window from 10:00 to 11:00, the code computes 1200; over the two adjacent windows
  the code counts 2400 seconds for a session that lasted 1200.
\<close>

theorem durationSec_not_clipped_counterexample:
  "durationSec 36000000 39600000 ex_session \<noteq>
     clipped_duration_spec 36000000 39600000 (r_startTime ex_session) (r_endTime ex_session) \<and>
   durationSec 36000000 39600000 ex_session = 1200 \<and>
   clipped_duration_spec 36000000 39600000 (r_startTime ex_session) (r_endTime ex_session) = 600 \<and>
   durationSec 36000000 39600000 ex_session + durationSec 39600000 43200000 ex_session = 2400 \<and>
   the (r_endTime ex_session) - r_startTime ex_session = 1200 * 1000"
  by code_simp

section \<open>What the reports return\<close>

lemma add_streams_nonempty:
  "out \<noteq> [] \<Longrightarrow> snd (add_streams uid un ws we ss (seen, out)) \<noteq> []"
  by (induction ss arbitrary: seen out) auto

lemma add_streams_none:
  "\<not> list_ex (in_period ws we) ss \<Longrightarrow> add_streams uid un ws we ss acc = acc"
  by (induction ss) (auto simp: prod.exhaust intro: prod.exhaust [of acc])

lemma add_streams_some:
  "list_ex (in_period ws we) ss \<Longrightarrow> snd (add_streams uid un ws we ss ([], [])) \<noteq> []"
  by (induction ss) (auto simp: add_streams_nonempty)

lemma process_activities_nonempty:
  "snd acc \<noteq> [] \<Longrightarrow> snd (process_activities ws we acts acc) \<noteq> []"
proof (induction acts arbitrary: acc)
  case Nil
  then show ?case by simp
next
  case (Cons x acts)
  obtain uid a where x: "x = (uid, a)" by (cases x)
  obtain seen out where acc: "acc = (seen, out)" by (cases acc)
  show ?case using Cons x acc by (simp add: add_streams_nonempty)
qed

lemma process_activities_some:
  "acts \<noteq> [] \<Longrightarrow> \<forall>(uid, a) \<in> set acts. list_ex (in_period ws we) (streams a) \<Longrightarrow>
   snd (process_activities ws we acts ([], [])) \<noteq> []"
  by (cases acts) (auto simp: process_activities_nonempty add_streams_some)

lemma find_report_matches:
  "\<forall>(uid, a) \<in> set (find_report gid ws we st). list_ex (in_period ws we) (streams a)"
  by (auto simp: find_report_def)

lemma find_report_empty: "find_report gid ws we st = [] \<longleftrightarrow> no_activity gid ws we st"
  by (auto simp: find_report_def find_guild_def no_activity_def filter_empty_conv list_all_iff
      list_ex_iff)

lemma processed_empty:
  "sort_key f (snd (process_activities ws we (find_report gid ws we st) ([], []))) = [] \<longleftrightarrow>
     no_activity gid ws we st"
proof (cases "find_report gid ws we st = []")
  case True
  moreover from True have "no_activity gid ws we st" by (simp add: find_report_empty)
  ultimately show ?thesis by simp
next
  case False
  then have "snd (process_activities ws we (find_report gid ws we st) ([], [])) \<noteq> []"
    using find_report_matches process_activities_some by blast
  then have "sort_key f (snd (process_activities ws we (find_report gid ws we st) ([], []))) \<noteq> []"
    by (metis length_0_conv length_sort)
  then show ?thesis using False find_report_empty by simp
qed

lemma report_body_eq:
  "report_body kind db gid ws we =
     (case db of Inl err \<Rightarrow> Inl err
      | Inr st \<Rightarrow> if no_activity gid ws we st then Inr [noStreamsEmbed kind ws we]
                  else Inl (ReferenceError ''pageCount''))"
  by (simp add: report_body_def Let_def pageCount_def processed_empty noStreamsEmbed_def add_field_def
      split: sum.splits)

lemma errorEmbed_fits:
  "length (message err) \<le> 4042 \<Longrightarrow> errorEmbed err = Inr (errorPage err)"
  by (simp add: errorEmbed_def error_text_def description_limit_def)

lemma errorEmbed_too_long:
  "length (message err) > 4042 \<Longrightarrow> errorEmbed err = Inl ValidationError"
  by (simp add: errorEmbed_def error_text_def description_limit_def)

lemma catch_block_pageCount:
  "catch_block (ReferenceError ''pageCount'') = Inr [errorPage (ReferenceError ''pageCount'')]"
  by (simp add: catch_block_def errorEmbed_fits message_def)

lemma generate_report_eq:
  "generate_report kind db gid ws we =
     (case db of Inl err \<Rightarrow> catch_block err
      | Inr st \<Rightarrow> if no_activity gid ws we st then Inr [noStreamsEmbed kind ws we]
                  else Inr [errorPage (ReferenceError ''pageCount'')])"
  by (simp add: generate_report_def report_body_eq catch_block_pageCount split: sum.splits)

text \<open>
  What the two functions do when the error page can be built: the result is one page,
  the "No Streams" page when no session of the guild overlaps the window, and the error
  page when a query rejects or when the body throws the ReferenceError for
  \<^verbatim>\<open>pageCount\<close>, as it does as soon as one session overlaps the window.
\<close>

lemma reports_return_when_description_fits:
  assumes "\<forall>err. db = Inl err \<or> cfg = Inl err \<longrightarrow> length (message err) \<le> 4042"
  shows "(\<exists>page. generateHourlyReport db gid ws we = Inr [page]) \<and>
         (\<exists>page. generateDailyReport cfg db gid ws we = Inr [page])"
    and "db = Inr st \<Longrightarrow> no_activity gid ws we st \<Longrightarrow>
         generateHourlyReport db gid ws we = Inr [noStreamsEmbed Hourly ws we] \<and>
         generateDailyReport (Inr ()) db gid ws we = Inr [noStreamsEmbed Daily ws we]"
    and "db = Inr st \<Longrightarrow> \<not> no_activity gid ws we st \<Longrightarrow>
         generateHourlyReport db gid ws we = Inr [errorPage (ReferenceError ''pageCount'')] \<and>
         generateDailyReport (Inr ()) db gid ws we = Inr [errorPage (ReferenceError ''pageCount'')]"
    and "db = Inl err \<Longrightarrow>
         generateHourlyReport db gid ws we = Inr [errorPage err] \<and>
         generateDailyReport (Inr ()) db gid ws we = Inr [errorPage err]"
    and "cfg = Inl err \<Longrightarrow> generateDailyReport cfg db gid ws we = Inr [errorPage err]"
  using assms
  by (auto simp: generateHourlyReport_def generateDailyReport_def generate_report_eq catch_block_def
      errorEmbed_fits split: sum.splits)

text \<open>
  Claim C9 on the code. The store query rejects with an error whose message has 4043
  characters. The claim says the function returns a single error page; in the code the
  \<^verbatim>\<open>catch\<close> block puts the message after its 54 characters of text into the
  description of the error page, the embed builder throws on the 4097 characters, and
  the exception leaves \<open>generateHourlyReport\<close> and \<open>generateDailyReport\<close>. With one
  character less the error page is returned.
\<close>

theorem report_rejects_on_long_message:
  "generateHourlyReport (Inl (StoreError (replicate 4043 CHR ''x''))) ''g1'' 0 3600000 =
     Inl ValidationError \<and>
   generateDailyReport (Inr ()) (Inl (StoreError (replicate 4043 CHR ''x''))) ''g1'' 0 3600000 =
     Inl ValidationError \<and>
   generateDailyReport (Inl (StoreError (replicate 4043 CHR ''x''))) (Inr ex_report_store) ''g1'' 0 3600000 =
     Inl ValidationError \<and>
   generateHourlyReport (Inl (StoreError (replicate 4042 CHR ''x''))) ''g1'' 0 3600000 =
     Inr [errorPage (StoreError (replicate 4042 CHR ''x''))]"
  by (simp add: generateHourlyReport_def generateDailyReport_def generate_report_def report_body_def
      catch_block_def errorEmbed_def error_text_def description_limit_def message_def)

section \<open>Pagination\<close>

text \<open>
  What the page loop would build for the example, were it reached: Alice's eight
  sessions on the first page and Bob's session on the second.
\<close>

lemma create_pages_example:
  "map_sum id (map (\<lambda>e. (title e, map (\<lambda>f. case f of UserField u n _ _ c \<Rightarrow> (u, length c) | _ \<Rightarrow> ([], 0)) (e_fields e))))
     (create_pages Daily \<lparr>title = ReportTitle Daily, description = PeriodDescription 0 3600000, e_fields = []\<rparr>
        NoStreams 2 ex_userStreams [''u1'', ''u2''] (ex_entries [''u1'', ''u2''])) =
   Inr [(PageOfTitle Daily 1 2, [([], 0), (''alice'', 8)]),
        (PageOfTitle Daily 2 2, [([], 0), (''bob'', 1)])]"
  by code_simp

text \<open>
  Claim C8 on the code. Alice has 8 sessions in the window and Bob has 1. The claim puts
  Alice's 8 sessions on page 1 and Bob on page 2; the report the code returns is the one
  error page, because the body throws the ReferenceError for \<^verbatim>\<open>pageCount\<close> before the
  page loop starts.
\<close>

theorem pagination_unreachable:
  "generateDailyReport (Inr ()) (Inr ex_report_store) ''g1'' 0 3600000 =
     Inr [errorPage (ReferenceError ''pageCount'')] \<and>
   generateHourlyReport (Inr ex_report_store) ''g1'' 0 3600000 =
     Inr [errorPage (ReferenceError ''pageCount'')]"
  by code_simp

section \<open>Recovery decides by the recorded channel\<close>

lemma markStreamAsInterrupted_other:
  "k' \<noteq> k \<Longrightarrow> findOne k' (fst (markStreamAsInterrupted now k st)) = findOne k' st"
  by (simp add: markStreamAsInterrupted_def Let_def findOne_save_other split: option.splits)

lemma reconcile_step:
  assumes "\<not> store_rejects env (stream_key s)"
  shows "\<exists>sent'. reconcile env now (s # ss) (st, sent) =
           reconcile env now ss
             (if keeps_open env s then st else fst (markStreamAsInterrupted now (stream_key s) st),
              sent')"
proof (cases "keeps_open env s")
  case True
  then show ?thesis by (auto simp: keeps_open_def)
next
  case False
  obtain st' r where m: "markStreamAsInterrupted now (stream_key s) st = (st', r)"
    by (cases "markStreamAsInterrupted now (stream_key s) st")
  then have t: "try_markStreamAsInterrupted env now (as_userId s, as_guildId s) st = Inr (st', r)"
    using assms by (simp add: try_markStreamAsInterrupted_def stream_key_def)
  show ?thesis
  proof (cases "guild_known env (as_guildId s) \<and> user_found env (as_userId s)")
    case True
    with False have "\<not> isCurrentlyStreaming env s" by (simp add: keeps_open_def)
    with True False t m show ?thesis by (cases r) auto
  next
    case g: False
    with False t m show ?thesis by auto
  qed
qed

lemma reconcile_other:
  "\<forall>s \<in> set ss. stream_key s \<noteq> k \<Longrightarrow> \<forall>s \<in> set ss. \<not> store_rejects env (stream_key s) \<Longrightarrow>
   findOne k (fst (fst (reconcile env now ss (st, sent)))) = findOne k st"
proof (induction ss arbitrary: st sent)
  case Nil
  then show ?case by simp
next
  case (Cons s ss)
  from Cons.prems have nr: "\<not> store_rejects env (stream_key s)" and ne: "stream_key s \<noteq> k" by simp_all
  from reconcile_step [OF nr, of now ss st sent] obtain sent' where
    r: "reconcile env now (s # ss) (st, sent) =
          reconcile env now ss
            (if keeps_open env s then st else fst (markStreamAsInterrupted now (stream_key s) st), sent')"
    by blast
  have "findOne k (if keeps_open env s then st else fst (markStreamAsInterrupted now (stream_key s) st))
          = findOne k st"
    using ne by (simp add: markStreamAsInterrupted_other)
  then show ?case using Cons.IH [of _ sent'] Cons.prems r by simp
qed

lemma reconcile_target:
  assumes "distinct (map stream_key ss)" and "s \<in> set ss"
    and "\<forall>s \<in> set ss. \<not> store_rejects env (stream_key s)"
    and "findOne (stream_key s) st = Some a" and "streams a \<noteq> []"
    and "endTime (last (streams a)) = None"
  shows "findOne (stream_key s) (fst (fst (reconcile env now ss (st, sent)))) =
           Some (if keeps_open env s then a else interruptLatest now a)"
  using assms
proof (induction ss arbitrary: st sent)
  case Nil
  then show ?case by simp
next
  case (Cons x ss)
  from Cons.prems have nr: "\<not> store_rejects env (stream_key x)" by simp
  from reconcile_step [OF nr, of now ss st sent] obtain sent' where
    r: "reconcile env now (x # ss) (st, sent) =
          reconcile env now ss
            (if keeps_open env x then st else fst (markStreamAsInterrupted now (stream_key x) st), sent')"
    by blast
  let ?st1 = "if keeps_open env x then st else fst (markStreamAsInterrupted now (stream_key x) st)"
  show ?case
  proof (cases "x = s")
    case True
    have "stream_key s \<notin> stream_key ` set ss"
      using True Cons.prems(1) by simp
    then have rest: "\<forall>y \<in> set ss. stream_key y \<noteq> stream_key s"
      by (metis imageI)
    have "findOne (stream_key s) ?st1 = Some (if keeps_open env s then a else interruptLatest now a)"
      using True Cons.prems(4,5,6) markStreamAsInterrupted_open [of "stream_key s" st a now]
      by simp
    then show ?thesis
      using r reconcile_other [OF rest, of env now ?st1 sent'] Cons.prems(3) by simp
  next
    case False
    then have s: "s \<in> set ss" using Cons.prems(2) by simp
    then have "stream_key x \<noteq> stream_key s" using Cons.prems(1) by auto
    then have "findOne (stream_key s) ?st1 = Some a"
      using Cons.prems(4) by (simp add: markStreamAsInterrupted_other)
    then show ?thesis
      using r Cons.IH [of ?st1 sent'] s Cons.prems by simp
  qed
qed

lemma stream_key_active_of [simp]: "stream_key (active_of d) = fst d"
  by (simp add: stream_key_def active_of_def Let_def)

lemma getAllActiveStreams_keys:
  "distinct (map fst st) \<Longrightarrow> distinct (map stream_key (getAllActiveStreams env st))"
  by (simp add: getAllActiveStreams_def o_def distinct_map_filter)

lemma getAllActiveStreams_member:
  assumes "store_ready env" "\<not> find_rejects env" "(k, a) \<in> set st" "streams a \<noteq> []"
    "endTime (last (streams a)) = None"
  shows "active_of (k, a) \<in> set (getAllActiveStreams env st)"
proof -
  have "list_ex (\<lambda>s. endTime s = None) (streams a)"
    using assms(4,5) last_in_set by (auto simp: list_ex_iff)
  then show ?thesis using assms by (auto simp: getAllActiveStreams_def)
qed

lemma isCurrentlyStreaming_iff:
  "as_channelId s \<noteq> [] \<Longrightarrow>
   isCurrentlyStreaming env s \<longleftrightarrow>
     (\<exists>v. member_voice env (as_guildId s) (as_userId s) = Some v \<and>
          v_channelId v = Some (as_channelId s) \<and> v_streaming v)"
  by (auto simp: isCurrentlyStreaming_def split: option.splits)

text \<open>
  Claim C5. The store is connected and none of its calls rejects; the collection has one
  document per key. Take an aggregate whose last session is open and was recorded in
  channel \<open>A\<close> (channel ids are not empty). After \<open>checkPreviousSessionStreams\<close> the
  session is still open if and only if the guild is known, the user and the member
  resolve, and the member's voice state is streaming in exactly channel \<open>A\<close>; then the
  aggregate is as it was. In every other case (guild, user or member not resolved, not
  in a voice channel, not streaming, or streaming in a channel other than \<open>A\<close>) the
  session is closed at the current time with \<open>interrupted\<close> set.
\<close>

theorem recovery_open_iff_same_channel:
  assumes "distinct (map fst st)"
    and "store_ready env" and "\<not> find_rejects env" and "\<forall>k. \<not> store_rejects env k"
    and "findOne (uid, gid) st = Some a" and "streams a \<noteq> []"
    and "endTime (last (streams a)) = None"
    and "channelId (last (streams a)) = A" and "A \<noteq> []"
  shows "\<exists>a'. findOne (uid, gid) (fst (fst (checkPreviousSessionStreams env now st))) = Some a' \<and>
           (endTime (last (streams a')) = None \<longleftrightarrow>
              guild_known env gid \<and> user_found env uid \<and>
              (\<exists>v. member_voice env gid uid = Some v \<and> v_channelId v = Some A \<and> v_streaming v)) \<and>
           (endTime (last (streams a')) = None \<longrightarrow> a' = a) \<and>
           (endTime (last (streams a')) \<noteq> None \<longrightarrow>
              interrupted (last (streams a')) \<and> endTime (last (streams a')) = Some now)"
proof -
  let ?s = "active_of ((uid, gid), a)"
  let ?ss = "getAllActiveStreams env st"
  have mem: "((uid, gid), a) \<in> set st"
    using assms(5) by (auto simp: findOne_def dest: map_of_SomeD)
  have s: "?s \<in> set ?ss"
    using getAllActiveStreams_member [OF assms(2,3) mem assms(6,7)] .
  have ids: "as_userId ?s = uid" "as_guildId ?s = gid" "as_channelId ?s = A"
    using assms(8) by (simp_all add: active_of_def Let_def)
  have k: "stream_key ?s = (uid, gid)" by simp
  have nr: "\<forall>s \<in> set ?ss. \<not> store_rejects env (stream_key s)" using assms(4) by blast
  have f: "findOne (stream_key ?s) st = Some a" using assms(5) by simp
  let ?a' = "if keeps_open env ?s then a else interruptLatest now a"
  have "findOne (stream_key ?s) (fst (fst (reconcile env now ?ss (st, [])))) = Some ?a'"
    using reconcile_target [OF getAllActiveStreams_keys [OF assms(1)] s nr f assms(6,7)] .
  moreover have "checkPreviousSessionStreams env now st = reconcile env now ?ss (st, [])"
    using s by (auto simp: checkPreviousSessionStreams_def Let_def)
  ultimately have found:
    "findOne (uid, gid) (fst (fst (checkPreviousSessionStreams env now st))) = Some ?a'"
    by simp
  have ko: "keeps_open env ?s \<longleftrightarrow>
      guild_known env gid \<and> user_found env uid \<and>
      (\<exists>v. member_voice env gid uid = Some v \<and> v_channelId v = Some A \<and> v_streaming v)"
    using isCurrentlyStreaming_iff [of ?s env] assms(9) ids by (simp add: keeps_open_def)
  have closed: "endTime (last (streams (interruptLatest now a))) = Some now"
    "interrupted (last (streams (interruptLatest now a)))"
    by (simp_all add: streams_interruptLatest)
  show ?thesis
  proof (cases "keeps_open env ?s")
    case True
    then have "findOne (uid, gid) (fst (fst (checkPreviousSessionStreams env now st))) = Some a"
      using found by simp
    moreover have "guild_known env gid \<and> user_found env uid \<and>
      (\<exists>v. member_voice env gid uid = Some v \<and> v_channelId v = Some A \<and> v_streaming v)"
      using True ko by simp
    ultimately show ?thesis using assms(7) by simp
  next
    case False
    then have "findOne (uid, gid) (fst (fst (checkPreviousSessionStreams env now st))) =
        Some (interruptLatest now a)"
      using found by simp
    moreover have "\<not> (guild_known env gid \<and> user_found env uid \<and>
      (\<exists>v. member_voice env gid uid = Some v \<and> v_channelId v = Some A \<and> v_streaming v))"
      using False ko by simp
    ultimately show ?thesis using closed by simp
  qed
qed

text \<open>
  Alice's open session was recorded in c1 and she streams in c9 now: it is closed as
  interrupted. Bob's was recorded in c2, where he still streams: it stays open.
\<close>

theorem recovery_open_iff_same_channel_witness:
  "map_option (\<lambda>a. (endTime (last (streams a)), interrupted (last (streams a))))
     (findOne ex_key (fst (fst (checkPreviousSessionStreams ex_env 5000 ex_two_open)))) =
     Some (Some 5000, True) \<and>
   map_option (\<lambda>a. endTime (last (streams a)))
     (findOne ex_key2 (fst (fst (checkPreviousSessionStreams ex_env 5000 ex_two_open)))) =
     Some None"
proof -
  have d: "distinct (map fst ex_two_open)" by code_simp
  have e: "store_ready ex_env" "\<not> find_rejects ex_env" "\<forall>k. \<not> store_rejects ex_env k"
    by (simp_all add: ex_env_def)
  let ?a = "startStream 0 ex_periods ''c1'' ''General'' (new_activity 0 ex_periods ''alice'' ''guild'')"
  let ?b = "startStream 1000 ex_periods ''c2'' ''Gaming'' (new_activity 1000 ex_periods ''bob'' ''guild'')"
  have fa: "findOne (''u1'', ''g1'') ex_two_open = Some ?a" by code_simp
  have fb: "findOne (''u2'', ''g1'') ex_two_open = Some ?b" by code_simp
  have a: "streams ?a \<noteq> []" "endTime (last (streams ?a)) = None" "channelId (last (streams ?a)) = ''c1''"
    by (simp_all add: startStream_def new_stream_def)
  have b: "streams ?b \<noteq> []" "endTime (last (streams ?b)) = None" "channelId (last (streams ?b)) = ''c2''"
    by (simp_all add: startStream_def new_stream_def)
  have va: "\<not> (\<exists>v. member_voice ex_env ''g1'' ''u1'' = Some v \<and> v_channelId v = Some ''c1'' \<and> v_streaming v)"
    by (simp add: ex_env_def)
  have vb: "guild_known ex_env ''g1'' \<and> user_found ex_env ''u2'' \<and>
      (\<exists>v. member_voice ex_env ''g1'' ''u2'' = Some v \<and> v_channelId v = Some ''c2'' \<and> v_streaming v)"
    by (simp add: ex_env_def)
  from recovery_open_iff_same_channel [OF d e fa a, of 5000] va
  have 1: "map_option (\<lambda>a. (endTime (last (streams a)), interrupted (last (streams a))))
     (findOne ex_key (fst (fst (checkPreviousSessionStreams ex_env 5000 ex_two_open)))) =
     Some (Some 5000, True)"
    by (auto simp: ex_key_def)
  from recovery_open_iff_same_channel [OF d e fb b, of 5000] vb
  have 2: "map_option (\<lambda>a. endTime (last (streams a)))
     (findOne ex_key2 (fst (fst (checkPreviousSessionStreams ex_env 5000 ex_two_open)))) = Some None"
    by (auto simp: ex_key2_def)
  from 1 2 show ?thesis by simp
qed

section \<open>A store failure stops recovery\<close>

text \<open>
  Claim C7 on the code. Alice and Bob both have an open session and neither streams any
  more. The store rejects the calls for Alice's aggregate: \<open>markStreamAsInterrupted\<close>
  rethrows, the exception leaves the loop, and the \<^verbatim>\<open>catch\<close> around the whole function
  logs it. Bob's session is never examined and stays open, although recovery closes it
  as interrupted when the store does not fail.
\<close>

theorem recovery_stops_at_store_failure:
  "snd (checkPreviousSessionStreams ex_env_failing 5000 ex_two_open) = Some StoreUnavailable \<and>
   map stream_key (getAllActiveStreams ex_env_failing ex_two_open) = [ex_key, ex_key2] \<and>
   map_option (\<lambda>a. endTime (last (streams a)))
     (findOne ex_key2 (fst (fst (checkPreviousSessionStreams ex_env_failing 5000 ex_two_open)))) =
     Some None \<and>
   map_option (\<lambda>a. (endTime (last (streams a)), interrupted (last (streams a))))
     (findOne ex_key2 (fst (fst (checkPreviousSessionStreams
        (ex_env_failing\<lparr>store_rejects := (\<lambda>k. False)\<rparr>) 5000 ex_two_open)))) =
     Some (Some 5000, True)"
  by code_simp

end
